theory Spec2Isabelle
  imports Complex_Main "HOL-Library.Product_Lexorder" "HOL-Library.List_Lexorder"
    "HOL-Library.Char_ord"
begin

section \<open>Strings and regular expressions of the validator\<close>

text \<open>
  Python strings are modelled as \<open>string\<close>; a \<open>char\<close> stands for the code point of the
  same number (U+0000 to U+00FF). On this range \<open>str.lower\<close>, \<open>str.strip\<close>,
  \<open>str.split\<close> and the regular-expression class \<open>\w\<close> are written out as Python 3
  defines them, and so is \<open>str.title\<close> with one limit: the title case of U+00B5
  and of U+00FF (U+039C and U+0178) lies outside the range, so a string with one of
  these two letters at the start of a word is outside the model, which leaves the
  letter as it is.
  Logging has no effect on any returned value and is left out.
\<close>

definition is_space :: "char \<Rightarrow> bool" where
  "is_space c = (let n = (of_char c :: nat) in
     (9 \<le> n \<and> n \<le> 13) \<or> (28 \<le> n \<and> n \<le> 32) \<or> n = 133 \<or> n = 160)"

definition is_upper :: "char \<Rightarrow> bool" where
  "is_upper c = (let n = (of_char c :: nat) in
     (65 \<le> n \<and> n \<le> 90) \<or> (192 \<le> n \<and> n \<le> 214) \<or> (216 \<le> n \<and> n \<le> 222))"

definition is_lower :: "char \<Rightarrow> bool" where
  "is_lower c = (let n = (of_char c :: nat) in
     (97 \<le> n \<and> n \<le> 122) \<or> n = 170 \<or> n = 181 \<or> n = 186 \<or>
     (223 \<le> n \<and> n \<le> 246) \<or> (248 \<le> n \<and> n \<le> 255))"

definition is_word_char :: "char \<Rightarrow> bool" where
  "is_word_char c = (let n = (of_char c :: nat) in
     is_upper c \<or> is_lower c \<or> (48 \<le> n \<and> n \<le> 57) \<or> n = 95 \<or>
     n = 178 \<or> n = 179 \<or> n = 185 \<or> (188 \<le> n \<and> n \<le> 190))"

definition to_lower :: "char \<Rightarrow> char" where
  "to_lower c = (if is_upper c then char_of ((of_char c :: nat) + 32) else c)"

definition to_upper :: "char \<Rightarrow> char" where
  "to_upper c = (let n = (of_char c :: nat) in
     if (97 \<le> n \<and> n \<le> 122) \<or> (224 \<le> n \<and> n \<le> 246) \<or> (248 \<le> n \<and> n \<le> 254)
     then char_of (n - 32) else c)"

definition lower :: "string \<Rightarrow> string" where
  "lower s = map to_lower s"

definition strip :: "string \<Rightarrow> string" where
  "strip s = rev (dropWhile is_space (rev (dropWhile is_space s)))"

text \<open>\<open>str.title\<close>: a cased character is title-cased when the character before it
  is not cased, and lower-cased otherwise. The title case of a letter is its upper
  case, except that of U+00DF, which is \<open>Ss\<close>.\<close>

definition to_title :: "char \<Rightarrow> string" where
  "to_title c = (if c = char_of (223 :: nat) then ''Ss'' else [to_upper c])"

fun title_from :: "bool \<Rightarrow> string \<Rightarrow> string" where
  "title_from prev_cased [] = []"
| "title_from prev_cased (c # cs) =
     (if prev_cased then [to_lower c] else to_title c)
       @ title_from (is_upper c \<or> is_lower c) cs"

definition title :: "string \<Rightarrow> string" where
  "title s = title_from False s"

text \<open>\<open>str.split()\<close> with no argument: the maximal runs of non-whitespace.\<close>

fun split_from :: "string \<Rightarrow> string \<Rightarrow> string list" where
  "split_from cur [] = (if cur = [] then [] else [rev cur])"
| "split_from cur (c # cs) =
     (if is_space c then (if cur = [] then split_from [] cs else rev cur # split_from [] cs)
      else split_from (c # cur) cs)"

definition split :: "string \<Rightarrow> string list" where
  "split s = split_from [] s"

text \<open>
  Every compiled pattern of the validator has the shape \<open>\b(?:w1|...|wn)\b\<close> with
  \<open>re.IGNORECASE\<close>, the \<open>wi\<close> escaped literals. The matcher below is the
  backtracking matcher on that shape: at a position it needs a word boundary, then
  takes the first alternative that matches the text there and is followed by a word
  boundary. \<open>prev\<close> is the character before the position, \<open>None\<close> at the start.
\<close>

definition is_w :: "char option \<Rightarrow> bool" where
  "is_w x = (case x of None \<Rightarrow> False | Some c \<Rightarrow> is_word_char c)"

definition word_boundary :: "char option \<Rightarrow> char option \<Rightarrow> bool" where
  "word_boundary prev nxt = (is_w prev \<noteq> is_w nxt)"

definition head_opt :: "string \<Rightarrow> char option" where
  "head_opt s = (case s of [] \<Rightarrow> None | c # _ \<Rightarrow> Some c)"

definition last_opt :: "char option \<Rightarrow> string \<Rightarrow> char option" where
  "last_opt prev s = (if s = [] then prev else Some (last s))"

fun ci_prefix :: "string \<Rightarrow> string \<Rightarrow> bool" where
  "ci_prefix [] s = True"
| "ci_prefix (p # ps) [] = False"
| "ci_prefix (p # ps) (c # cs) = (to_lower p = to_lower c \<and> ci_prefix ps cs)"

definition alt_matches :: "string \<Rightarrow> char option \<Rightarrow> string \<Rightarrow> bool" where
  "alt_matches w prev s =
     (ci_prefix w s \<and>
      word_boundary (last_opt prev (take (length w) s)) (head_opt (drop (length w) s)))"

fun match_alt :: "string list \<Rightarrow> char option \<Rightarrow> string \<Rightarrow> nat option" where
  "match_alt [] prev s = None"
| "match_alt (w # ws) prev s =
     (if alt_matches w prev s then Some (length w) else match_alt ws prev s)"

definition match_here :: "string list \<Rightarrow> char option \<Rightarrow> string \<Rightarrow> nat option" where
  "match_here ws prev s =
     (if word_boundary prev (head_opt s) then match_alt ws prev s else None)"

text \<open>\<open>pattern.findall(text)\<close>: the non-overlapping matches from left to right.
  \<open>skip\<close> counts the characters of the current match still to be passed.\<close>

fun findall_from :: "string list \<Rightarrow> nat \<Rightarrow> char option \<Rightarrow> string \<Rightarrow> string list" where
  "findall_from ws skip prev [] =
     (if skip = 0 \<and> match_here ws prev [] \<noteq> None then [[]] else [])"
| "findall_from ws skip prev (c # cs) =
     (if 0 < skip then findall_from ws (skip - 1) (Some c) cs
      else (case match_here ws prev (c # cs) of
              None \<Rightarrow> findall_from ws 0 (Some c) cs
            | Some n \<Rightarrow> take n (c # cs) # findall_from ws (n - 1) (Some c) cs))"

definition findall :: "string list \<Rightarrow> string \<Rightarrow> string list" where
  "findall ws s = findall_from ws 0 None s"

text \<open>\<open>pattern.search(text)\<close> as a truth value: some position has a match.\<close>

fun search_from :: "string list \<Rightarrow> char option \<Rightarrow> string \<Rightarrow> bool" where
  "search_from ws prev [] = (match_here ws prev [] \<noteq> None)"
| "search_from ws prev (c # cs) =
     (match_here ws prev (c # cs) \<noteq> None \<or> search_from ws (Some c) cs)"

definition search :: "string list \<Rightarrow> string \<Rightarrow> bool" where
  "search ws s = search_from ws None s"

text \<open>The fourth travel phrase, \<open>\b(?:a1|..).+(?:b1|..)\b\<close>: after a first
  alternative, one or more characters other than a newline, then a second
  alternative followed by a word boundary.\<close>

fun dot_plus_then :: "string list \<Rightarrow> string \<Rightarrow> bool" where
  "dot_plus_then ws [] = False"
| "dot_plus_then ws (c # cs) =
     (c \<noteq> CHR 0x0A \<and> (match_alt ws (Some c) cs \<noteq> None \<or> dot_plus_then ws cs))"

fun first_then :: "string list \<Rightarrow> string list \<Rightarrow> string \<Rightarrow> bool" where
  "first_then [] bs s = False"
| "first_then (a # as) bs s =
     ((ci_prefix a s \<and> dot_plus_then bs (drop (length a) s)) \<or> first_then as bs s)"

fun search2_from :: "string list \<Rightarrow> string list \<Rightarrow> char option \<Rightarrow> string \<Rightarrow> bool" where
  "search2_from as bs prev [] = False"
| "search2_from as bs prev (c # cs) =
     ((word_boundary prev (Some c) \<and> first_then as bs (c # cs))
      \<or> search2_from as bs (Some c) cs)"

definition search2 :: "string list \<Rightarrow> string list \<Rightarrow> string \<Rightarrow> bool" where
  "search2 as bs s = search2_from as bs None s"

section \<open>TravelSecurityValidator\<close>

definition travel_keywords :: "(string \<times> string list) list" where
  "travel_keywords =
    [(''destinations'',
       [''city'', ''country'', ''destination'', ''place'', ''location'', ''visit'', ''travel to'',
        ''paris'', ''london'', ''tokyo'', ''new york'', ''dubai'', ''barcelona'', ''rome'',
        ''bangkok'', ''sydney'', ''mumbai'', ''europe'', ''asia'', ''america'', ''africa'']),
     (''accommodation'',
       [''hotel'', ''hostel'', ''resort'', ''accommodation'', ''stay'', ''lodge'', ''inn'',
        ''apartment'', ''booking'', ''room'', ''suite'', ''bed and breakfast'']),
     (''activities'',
       [''attraction'', ''sightseeing'', ''tour'', ''museum'', ''landmark'', ''monument'',
        ''beach'', ''park'', ''temple'', ''church'', ''castle'', ''gallery'', ''zoo'',
        ''shopping'', ''restaurant'', ''nightlife'', ''entertainment'']),
     (''transportation'',
       [''flight'', ''plane'', ''airport'', ''train'', ''bus'', ''taxi'', ''car rental'',
        ''transportation'', ''metro'', ''subway'', ''ferry'', ''cruise'']),
     (''planning'',
       [''itinerary'', ''schedule'', ''plan'', ''trip'', ''vacation'', ''holiday'', ''journey'',
        ''budget'', ''cost'', ''price'', ''expense'', ''currency'', ''exchange'',
        ''visa'', ''passport'', ''weather'', ''climate'', ''season''])]"

definition high_threat_words :: "string list" where
  "high_threat_words =
     [''bomb'', ''terrorist'', ''kill'', ''murder'', ''attack'', ''violence'', ''weapon'',
      ''gun'', ''knife'', ''explosive'', ''threat'', ''harm'', ''destroy'']"

definition threat_words :: "(string \<times> string list) list" where
  "threat_words =
    [(''high_threat'', high_threat_words),
     (''inappropriate'',
       [''sex'', ''porn'', ''nude'', ''adult'', ''drug'', ''cocaine'', ''marijuana'']),
     (''travel_illegal'',
       [''visa fraud'', ''fake passport'', ''smuggling'', ''human trafficking'',
        ''drug trafficking'', ''money laundering'', ''illegal border''])]"

definition non_travel_topics :: "(string \<times> string list) list" where
  "non_travel_topics =
    [(''technology'',
       [''programming'', ''coding'', ''software'', ''computer'', ''python'', ''javascript'',
        ''html'', ''css'', ''database'', ''api'', ''algorithm'']),
     (''entertainment'',
       [''movie'', ''tv show'', ''music'', ''song'', ''game'', ''sport'', ''celebrity'', ''news'']),
     (''education'',
       [''homework'', ''essay'', ''study'', ''exam'', ''math problem'', ''research paper'']),
     (''general'',
       [''hello'', ''hi'', ''how are you'', ''tell me a joke'', ''what do you think''])]"

text \<open>\<open>_compile_patterns\<close>: one alternation of all travel words, and one
  alternation per threat and per non-travel category, in the dictionaries' order.\<close>

definition travel_pattern :: "string list" where
  "travel_pattern = concat (map snd travel_keywords)"

definition threat_patterns :: "(string \<times> string list) list" where
  "threat_patterns = threat_words"

definition non_travel_patterns :: "(string \<times> string list) list" where
  "non_travel_patterns = non_travel_topics"

datatype action = Allow | Block | Redirect

record validation =
  is_safe :: bool
  is_travel :: bool
  action :: action
  reason :: string
  v_category :: "string option"
  severity :: "string option"
  travel_score :: "rat option"
  suggestion :: "string option"

record security_result =
  sr_is_safe :: bool
  sr_category :: "string option"
  sr_matches :: "string list"
  sr_severity :: "string option"

fun check_threats_in :: "(string \<times> string list) list \<Rightarrow> string \<Rightarrow> security_result" where
  "check_threats_in [] text =
     \<lparr>sr_is_safe = True, sr_category = None, sr_matches = [], sr_severity = None\<rparr>"
| "check_threats_in ((cat, pattern) # rest) text =
     (let matches = findall pattern text in
      if matches \<noteq> [] then
        \<lparr>sr_is_safe = False, sr_category = Some cat, sr_matches = matches,
         sr_severity = Some (if cat = ''high_threat'' then ''critical'' else ''moderate'')\<rparr>
      else check_threats_in rest text)"

definition check_security_threats :: "string \<Rightarrow> security_result" where
  "check_security_threats text = check_threats_in threat_patterns text"

text \<open>
  \<open>_calculate_travel_relevance\<close>. Python computes the score in binary floating
  point; the model computes the same expression in exact rational arithmetic.
\<close>

definition travel_phrase_hits :: "string \<Rightarrow> bool list" where
  "travel_phrase_hits text =
     [search [''trip to'', ''travel to'', ''visit'', ''vacation in'', ''holiday in''] text,
      search [''hotel in'', ''stay in'', ''accommodation in''] text,
      search [''attractions in'', ''things to do in''] text,
      search2 [''budget for'', ''cost of''] [''trip'', ''travel'', ''vacation''] text,
      search [''weather in'', ''climate in'', ''best time to visit''] text]"

definition calculate_travel_relevance :: "string \<Rightarrow> rat" where
  "calculate_travel_relevance text =
     (let words = split text in
      if words = [] then 0
      else
        let travel_matches = length (findall travel_pattern text);
            total_words = length words;
            keyword_score = min (of_nat travel_matches / max (of_nat total_words * (3 / 10)) 1) 1;
            pattern_boost = of_nat (length (filter id (travel_phrase_hits text))) * (2 / 10)
        in min (keyword_score + pattern_boost) 1)"

fun first_category :: "(string \<times> string list) list \<Rightarrow> string \<Rightarrow> string" where
  "first_category [] text = ''other_non_travel''"
| "first_category ((cat, pattern) # rest) text =
     (if search pattern text then cat else first_category rest text)"

definition detect_non_travel_category :: "string \<Rightarrow> string" where
  "detect_non_travel_category text = first_category non_travel_patterns text"

definition suggestions :: "string list" where
  "suggestions =
     [''Try asking about hotels, attractions, or itineraries for your destination!'',
      ''I can help you plan trips - ask about destinations, budgets, or travel recommendations!'',
      ''Let'' @ [CHR 0x27] @ ''s focus on travel planning - ask me about accommodations, activities, or trip costs!'',
      ''Ask me about travel topics like finding hotels, creating itineraries, or budgeting for trips!'']"

text \<open>\<open>random.choice(suggestions)\<close>: the draw is the argument \<open>rnd\<close>.\<close>

definition get_travel_suggestion :: "nat \<Rightarrow> string" where
  "get_travel_suggestion rnd = suggestions ! (rnd mod 4)"

definition validate_content :: "nat \<Rightarrow> string \<Rightarrow> validation" where
  "validate_content rnd text =
     (if text = [] then
        \<lparr>is_safe = False, is_travel = False, action = Block, reason = ''invalid_input'',
         v_category = None, severity = None, travel_score = None, suggestion = None\<rparr>
      else
        let text_clean = lower (strip text);
            security_result = check_security_threats text_clean
        in
        if \<not> sr_is_safe security_result then
          \<lparr>is_safe = False, is_travel = False, action = Block, reason = ''security_violation'',
           v_category = sr_category security_result,
           severity = Some (case sr_severity security_result of None \<Rightarrow> ''high'' | Some s \<Rightarrow> s),
           travel_score = None, suggestion = None\<rparr>
        else
          let score = calculate_travel_relevance text_clean in
          if score < 3 / 10 then
            \<lparr>is_safe = True, is_travel = False, action = Redirect, reason = ''non_travel_topic'',
             v_category = Some (detect_non_travel_category text_clean), severity = None,
             travel_score = Some score, suggestion = Some (get_travel_suggestion rnd)\<rparr>
          else
            \<lparr>is_safe = True, is_travel = True, action = Allow, reason = ''valid_travel_query'',
             v_category = None, severity = None, travel_score = Some score, suggestion = None\<rparr>)"

section \<open>Travel datasets\<close>

text \<open>
  \<open>hotels_df\<close>, \<open>attractions_df\<close> and \<open>itinerary_templates\<close> are read from files
  at start-up; the functions below take them as arguments. A data frame is the
  list of its rows in file order, and it is \<open>empty\<close> when it has no row. Prices
  and fees are integers, ratings are rationals.
\<close>

record hotel =
  hotel_id :: string
  hotel_name :: string
  hotel_city :: string
  hotel_category :: string
  price_per_night :: int
  hotel_rating :: rat
  amenities :: string
  address :: string
  availability :: bool
  hotel_country :: string

record attraction =
  attraction_id :: string
  attraction_name :: string
  attraction_city :: string
  attraction_category :: string
  entry_fee :: int
  duration_hours :: rat
  attraction_rating :: rat
  description :: string
  opening_hours :: string
  attraction_country :: string

text \<open>An error payload: the dictionary with the key \<open>error\<close> and the optional keys
  the functions add to it.\<close>

record error_payload =
  error :: string
  available_cities :: "string list option"
  available_categories :: "string list option"
  err_suggestion :: "string option"

definition plain_error :: "string \<Rightarrow> error_payload" where
  "plain_error msg =
     \<lparr>error = msg, available_cities = None, available_categories = None,
      err_suggestion = None\<rparr>"

fun join :: "string \<Rightarrow> string list \<Rightarrow> string" where
  "join sep [] = []"
| "join sep [x] = x"
| "join sep (x # y # ys) = x @ sep @ join sep (y # ys)"

section \<open>TravelPlannerFunctions.search\_hotels\<close>

text \<open>The success payload keeps the selected rows in result order, the echoed
  filters and the count; the statistics block (floating-point means) is left out.\<close>

record hotels_result =
  hr_city :: string
  hr_country :: string
  hotels_found :: nat
  hotels :: "hotel list"
  hr_budget_max :: "int option"
  hr_category :: "string option"
  hr_availability_check :: bool

definition valid_categories :: "string list" where
  "valid_categories = [''luxury'', ''mid-range'', ''budget'']"

text \<open>\<open>sort_values(['rating', 'price_per_night'], ascending=[False, True])\<close>\<close>

definition hotel_sort_key :: "hotel \<Rightarrow> rat \<times> int" where
  "hotel_sort_key h = (- hotel_rating h, price_per_night h)"

definition search_hotels ::
  "hotel list \<Rightarrow> string \<Rightarrow> int option \<Rightarrow> string option \<Rightarrow> bool
     \<Rightarrow> error_payload + hotels_result" where
  "search_hotels hotels_df city0 budget_max category check_availability =
     (if city0 = [] then
        Inl (plain_error ''City parameter is required and must be a valid string'')
      else
        let city = title (strip city0) in
        if hotels_df = [] then Inl (plain_error ''Hotel database is currently unavailable'')
        else
          let city_hotels = filter (\<lambda>h. lower (hotel_city h) = lower city) hotels_df in
          if city_hotels = [] then
            let cities = sort (remdups (map hotel_city hotels_df)) in
            Inl \<lparr>error = ''No hotels found in '' @ city,
                 available_cities = Some cities, available_categories = None,
                 err_suggestion =
                   Some (''Try one of these cities: '' @ join '', '' (take 5 cities))\<rparr>
          else
            \<comment> \<open>\<open>if budget_max:\<close> is false for \<open>None\<close> and for \<open>0\<close>\<close>
            let budget_given = (case budget_max of None \<Rightarrow> False | Some b \<Rightarrow> b \<noteq> 0) in
            if budget_given \<and> (the budget_max < 0 \<or> the budget_max > 5000) then
              Inl (plain_error ''Budget must be a positive integer between 0 and 5000 USD'')
            else
              let city_hotels1 =
                    (if budget_given
                     then filter (\<lambda>h. price_per_night h \<le> the budget_max) city_hotels
                     else city_hotels);
                  category_given = (case category of None \<Rightarrow> False | Some c \<Rightarrow> c \<noteq> [])
              in
              if category_given \<and> lower (the category) \<notin> set valid_categories then
                Inl (plain_error
                  (''Category must be one of: '' @ join '', '' valid_categories))
              else
                let city_hotels2 =
                      (if category_given
                       then filter (\<lambda>h. lower (hotel_category h) = lower (the category))
                              city_hotels1
                       else city_hotels1);
                    city_hotels3 =
                      (if check_availability then filter availability city_hotels2
                       else city_hotels2)
                in
                if city_hotels3 = [] then
                  Inl \<lparr>error = ''No hotels found matching your criteria in '' @ city,
                       available_cities = None, available_categories = None,
                       err_suggestion =
                         Some ''Try adjusting your budget or category preferences''\<rparr>
                else
                  let results = take 8 (sort_key hotel_sort_key city_hotels3) in
                  Inr \<lparr>hr_city = city, hr_country = hotel_country (hd results),
                       hotels_found = length results, hotels = results,
                       hr_budget_max = budget_max, hr_category = category,
                       hr_availability_check = check_availability\<rparr>)"

section \<open>TravelPlannerFunctions.get\_attractions\<close>

record attractions_result =
  ar_city :: string
  ar_country :: string
  attractions_found :: nat
  attractions :: "attraction list"
  ar_category :: "string option"
  ar_max_entry_fee :: "int option"

definition attraction_sort_key :: "attraction \<Rightarrow> rat \<times> int" where
  "attraction_sort_key a = (- attraction_rating a, entry_fee a)"

definition get_attractions ::
  "attraction list \<Rightarrow> string \<Rightarrow> string option \<Rightarrow> int option
     \<Rightarrow> error_payload + attractions_result" where
  "get_attractions attractions_df city0 category max_entry_fee =
     (if city0 = [] then
        Inl (plain_error ''City parameter is required and must be a valid string'')
      else
        let city = title (strip city0) in
        if attractions_df = [] then
          Inl (plain_error ''Attractions database is currently unavailable'')
        else
          let city_attractions =
                filter (\<lambda>a. lower (attraction_city a) = lower city) attractions_df in
          if city_attractions = [] then
            let cities = sort (remdups (map attraction_city attractions_df)) in
            Inl \<lparr>error = ''No attractions found in '' @ city,
                 available_cities = Some cities, available_categories = None,
                 err_suggestion =
                   Some (''Try one of these cities: '' @ join '', '' (take 5 cities))\<rparr>
          else
            let category_given = (case category of None \<Rightarrow> False | Some c \<Rightarrow> c \<noteq> []);
                categories = sort (remdups (map attraction_category attractions_df))
            in
            if category_given \<and> the category \<notin> set categories then
              Inl \<lparr>error = ''Invalid category '' @ [CHR 0x27] @ the category @ [CHR 0x27],
                   available_cities = None, available_categories = Some categories,
                   err_suggestion = None\<rparr>
            else
              let city_attractions1 =
                    (if category_given
                     then filter (\<lambda>a. attraction_category a = the category) city_attractions
                     else city_attractions)
              in
              if max_entry_fee \<noteq> None \<and> the max_entry_fee < 0 then
                Inl (plain_error ''Maximum entry fee must be a non-negative integer'')
              else
                let city_attractions2 =
                      (if max_entry_fee \<noteq> None
                       then filter (\<lambda>a. entry_fee a \<le> the max_entry_fee) city_attractions1
                       else city_attractions1)
                in
                if city_attractions2 = [] then
                  Inl \<lparr>error = ''No attractions found matching your criteria in '' @ city,
                       available_cities = None, available_categories = None,
                       err_suggestion =
                         Some ''Try adjusting your category or budget filters''\<rparr>
                else
                  let results = take 12 (sort_key attraction_sort_key city_attractions2) in
                  Inr \<lparr>ar_city = city, ar_country = attraction_country (hd results),
                       attractions_found = length results, attractions = results,
                       ar_category = category, ar_max_entry_fee = max_entry_fee\<rparr>)"

section \<open>TravelPlannerFunctions.create\_itinerary\<close>

fun digits :: "nat \<Rightarrow> string" where
  "digits n =
     (if n < 10 then [char_of (48 + n)] else digits (n div 10) @ [char_of (48 + n mod 10)])"

definition str_int :: "int \<Rightarrow> string" where
  "str_int i = (if i < 0 then CHR ''-'' # digits (nat (- i)) else digits (nat i))"

text \<open>A day plan and the success payload. The floating-point fields
  (\<open>total_duration\<close> of a day, \<open>daily_average_cost\<close> of the result) are left out.\<close>

record day_plan =
  day :: nat
  day_title :: string
  activities :: "string list"
  attraction_details :: "attraction list"
  meals :: "string list"
  estimated_cost :: int
  transportation :: string

text \<open>
  Modelled from the spec: the file \<open>travel_itinerary_templates.json\<close> is not among
  the sources. The spec describes the template store as a mapping from city to
  duration key to an ordered sequence of day-plans, each carrying an
  \<open>estimated_cost\<close>; a stored day is modelled with the fields of a day plan, so
  that a template can name the attractions of its days. \<open>create_itinerary\<close> reads
  only \<open>estimated_cost\<close> of a stored day and returns the days as they are.
\<close>

type_synonym templates = "string \<rightharpoonup> (string \<rightharpoonup> day_plan list)"

record itinerary_result =
  ir_city :: string
  ir_duration_days :: int
  itinerary_type :: string
  itinerary :: "day_plan list"
  total_estimated_cost :: int
  attractions_included :: "nat option"
  ir_interests :: "string option"
  variety_achieved :: "nat option"
  ir_notes :: string

text \<open>The grouping loop: a dictionary from category to the attractions of that
  category, both in order of first appearance.\<close>

fun add_to_category ::
  "attraction \<Rightarrow> (string \<times> attraction list) list \<Rightarrow> (string \<times> attraction list) list" where
  "add_to_category a [] = [(attraction_category a, [a])]"
| "add_to_category a ((c, xs) # rest) =
     (if c = attraction_category a then (c, xs @ [a]) # rest
      else (c, xs) # add_to_category a rest)"

definition categorize :: "attraction list \<Rightarrow> (string \<times> attraction list) list" where
  "categorize as = foldl (\<lambda>acc a. add_to_category a acc) [] as"

text \<open>The state of one day's selection: the attractions chosen for the day, the
  ids used so far in the whole itinerary, and the day's cost.\<close>

type_synonym day_state = "attraction list \<times> string set \<times> int"

fun pick_by_category ::
  "(string \<times> attraction list) list \<Rightarrow> nat \<Rightarrow> day_state \<Rightarrow> day_state" where
  "pick_by_category [] per_day st = st"
| "pick_by_category ((c, xs) # rest) per_day (day_attractions, used, day_cost) =
     (let available = filter (\<lambda>a. attraction_id a \<notin> used) xs in
      if available \<noteq> [] \<and> length day_attractions < per_day then
        let selected = hd available in
        pick_by_category rest per_day
          (day_attractions @ [selected], insert (attraction_id selected) used,
           day_cost + entry_fee selected)
      else pick_by_category rest per_day (day_attractions, used, day_cost))"

function fill_remaining :: "attraction list \<Rightarrow> nat \<Rightarrow> day_state \<Rightarrow> day_state" where
  "fill_remaining as per_day (day_attractions, used, day_cost) =
     (if length day_attractions < per_day then
        let remaining = filter (\<lambda>a. attraction_id a \<notin> used) as in
        if remaining = [] then (day_attractions, used, day_cost)
        else
          let selected = hd remaining in
          fill_remaining as per_day
            (day_attractions @ [selected], insert (attraction_id selected) used,
             day_cost + entry_fee selected)
      else (day_attractions, used, day_cost))"
  by pat_completeness auto
termination
  by (relation "measure (\<lambda>(as, per_day, day_attractions, used, day_cost).
        per_day - length day_attractions)") auto

fun plan_days ::
  "string \<Rightarrow> attraction list \<Rightarrow> (string \<times> attraction list) list \<Rightarrow> nat \<Rightarrow> nat list
     \<Rightarrow> string set \<Rightarrow> day_plan list \<times> string set" where
  "plan_days city as cats per_day [] used = ([], used)"
| "plan_days city as cats per_day (d # ds) used =
     (let (day_attractions, used1, day_cost) =
            fill_remaining as per_day (pick_by_category cats per_day ([], used, 50));
          plan = \<lparr>day = d,
                  day_title = ''Day '' @ digits d @ '' - '' @ city @ '' Exploration'',
                  activities = map attraction_name day_attractions,
                  attraction_details = day_attractions,
                  meals = [''Local breakfast'', ''Regional lunch'', ''Traditional dinner''],
                  estimated_cost = day_cost,
                  transportation = ''Public transport + Walking''\<rparr>;
          (rest, used2) = plan_days city as cats per_day ds used1
      in (plan # rest, used2))"

definition find_template :: "templates \<Rightarrow> string \<Rightarrow> int \<Rightarrow> day_plan list option" where
  "find_template itinerary_templates city duration_days =
     (case itinerary_templates city of
        None \<Rightarrow> None
      | Some by_duration \<Rightarrow> by_duration (str_int duration_days @ ''_days''))"

definition create_itinerary ::
  "templates \<Rightarrow> attraction list \<Rightarrow> string \<Rightarrow> int \<Rightarrow> string option
     \<Rightarrow> error_payload + itinerary_result" where
  "create_itinerary itinerary_templates attractions_df city0 duration_days interests =
     (if city0 = [] then
        Inl (plain_error ''City parameter is required and must be a valid string'')
      else if duration_days < 1 \<or> duration_days > 14 then
        Inl (plain_error ''Duration must be between 1 and 14 days'')
      else
        let city = title (strip city0) in
        case find_template itinerary_templates city duration_days of
          Some template_itinerary \<Rightarrow>
            Inr \<lparr>ir_city = city, ir_duration_days = duration_days,
                 itinerary_type = ''curated_template'', itinerary = template_itinerary,
                 total_estimated_cost = sum_list (map estimated_cost template_itinerary),
                 attractions_included = None, ir_interests = None, variety_achieved = None,
                 ir_notes = ''This is a curated itinerary template based on popular attractions and activities.''\<rparr>
        | None \<Rightarrow>
            (case get_attractions attractions_df city None None of
               Inl err \<Rightarrow> Inl err
             | Inr attractions_result \<Rightarrow>
                 let as = attractions attractions_result in
                 if int (length as) < duration_days * 2 then
                   Inl \<lparr>error = ''Insufficient attraction data for '' @ str_int duration_days
                                  @ '' days in '' @ city,
                        available_cities = None, available_categories = None,
                        err_suggestion =
                          Some ''Try a shorter duration or a different destination''\<rparr>
                 else
                   let per_day = max 2 (length as div nat duration_days);
                       cats = categorize as;
                       (plans, used) =
                         plan_days city as cats per_day [1 ..< nat duration_days + 1] {}
                   in
                   Inr \<lparr>ir_city = city, ir_duration_days = duration_days,
                        itinerary_type = ''custom_generated'', itinerary = plans,
                        total_estimated_cost = sum_list (map estimated_cost plans),
                        attractions_included = Some (card used), ir_interests = interests,
                        variety_achieved = Some (length cats),
                        ir_notes = ''This is a custom itinerary generated from available attractions data.''\<rparr>))"

text \<open>The per-day costs and the per-day attraction ids of an itinerary, read off
  the days' \<open>estimated_cost\<close> and \<open>attraction_details\<close>, curated or generated.\<close>

definition day_costs :: "day_plan list \<Rightarrow> int list" where
  "day_costs days = map estimated_cost days"

definition day_attraction_ids :: "day_plan list \<Rightarrow> string list list" where
  "day_attraction_ids days = map (\<lambda>p. map attraction_id (attraction_details p)) days"

text \<open>The invariant of one day's selection, relative to the ids \<open>used0\<close> used
  before the day: the day's ids are distinct, none was used before, and the used
  set has grown by exactly them.\<close>

definition day_inv :: "string set \<Rightarrow> day_state \<Rightarrow> bool" where
  "day_inv used0 st = (case st of (day_attractions, used, day_cost) \<Rightarrow>
     distinct (map attraction_id day_attractions)
     \<and> set (map attraction_id day_attractions) \<inter> used0 = {}
     \<and> used = used0 \<union> set (map attraction_id day_attractions))"

section \<open>TravelPlannerFunctions.get\_travel\_budget\_estimate\<close>
















section \<open>Sessions and the chat handler\<close>

datatype jvalue = JString string | JInt int | JBool bool | JNull

text \<open>The parsed request body: not JSON at all (\<open>get_json\<close> fails), or an object
  with the optional keys \<open>message\<close> and \<open>session_id\<close>.\<close>

datatype request_body = NoJson | Json "jvalue option" "string option"

text \<open>The \<open>arguments\<close> string of a function call after \<open>json.loads\<close>: not JSON
  (JSONDecodeError), JSON that is not an object, or an object.\<close>

datatype arguments = Malformed | NotAnObject | Object "(string \<times> jvalue) list"

datatype message =
    SystemPrompt
  | UserMsg string
  | AssistantMsg string
  | FunctionCallMsg string "(string \<times> jvalue) list"
  | FunctionMsg string string

datatype llm_reply = Content string | FunctionCall string arguments

record session =
  messages :: "message list"
  created_at :: nat
  message_count :: int
  off_topic_warnings :: int
  security_violations :: int

type_synonym sessions = "string \<rightharpoonup> session"

text \<open>
  What a turn takes from outside: the clock, the random draw of the suggestion,
  the language model (\<open>call_openai_with_functions\<close>, \<open>None\<close> when it returns
  \<open>None\<close>) and the serialised payload of a travel function called with bound
  arguments. The travel functions catch every exception of their own body, and the
  handler only serialises their payload into the history and the response.
\<close>

record env =
  env_now :: nat
  env_rnd :: nat
  env_llm :: "message list \<Rightarrow> llm_reply option"
  env_run :: "string \<Rightarrow> (string \<times> jvalue) list \<Rightarrow> string"

datatype chat_response =
    NoMessage
  | RateLimited
  | SessionReset string string
  | Blocked string string int
  | OffTopic string "string option" int
  | ModelUnavailable
  | InvalidFunctionCall
  | UnknownFunction string
  | FunctionAnswer string string string "(string \<times> jvalue) list"
  | Answer string
  | ServiceError

datatype outcome = Raised | Returned chat_response

definition fresh_session :: "nat \<Rightarrow> session" where
  "fresh_session now =
     \<lparr>messages = [], created_at = now, message_count = 0, off_topic_warnings = 0,
      security_violations = 0\<rparr>"

text \<open>\<open>function_mapping\<close> with the signatures of the five functions: the
  parameters without a default and those with one. Calling \<open>f(**args)\<close> raises
  TypeError unless every required name is a key and every key is a parameter.\<close>

definition function_mapping :: "(string \<times> string list \<times> string list) list" where
  "function_mapping =
     [(''search_hotels'', [''city''], [''budget_max'', ''category'', ''check_availability'']),
      (''get_attractions'', [''city''], [''category'', ''max_entry_fee'']),
      (''create_itinerary'', [''city'', ''duration_days''], [''interests'']),
      (''get_travel_budget_estimate'', [''city'', ''duration_days''], [''accommodation_category'']),
      (''check_weather_recommendation'', [''city'', ''travel_month''], [])]"

definition binds :: "string list \<times> string list \<Rightarrow> (string \<times> jvalue) list \<Rightarrow> bool" where
  "binds sig kwargs =
     (list_all (\<lambda>p. p \<in> set (map fst kwargs)) (fst sig)
      \<and> list_all (\<lambda>k. k \<in> set (fst sig @ snd sig)) (map fst kwargs))"

definition last10 :: "message list \<Rightarrow> message list" where
  "last10 ms = drop (length ms - 10) ms"

definition extend_messages :: "sessions \<Rightarrow> string \<Rightarrow> session \<Rightarrow> message list \<Rightarrow> sessions" where
  "extend_messages store session_id session new =
     store(session_id \<mapsto> session\<lparr>messages := messages session @ new\<rparr>)"

text \<open>The handler from building the model context on, for a safe travel message.
  \<open>session\<close> is the session object of the turn, already stored under
  \<open>session_id\<close>; a raised exception leaves the store as it is at that point.\<close>

definition converse ::
  "env \<Rightarrow> string \<Rightarrow> string \<Rightarrow> session \<Rightarrow> sessions \<Rightarrow> outcome \<times> sessions" where
  "converse e user_message session_id session store =
     (let msgs = SystemPrompt # last10 (messages session) @ [UserMsg user_message] in
      case env_llm e msgs of
        None \<Rightarrow> (Returned ModelUnavailable, store)
      | Some (Content regular_response) \<Rightarrow>
          (Returned (Answer regular_response),
           extend_messages store session_id session
             [UserMsg user_message, AssistantMsg regular_response])
      | Some (FunctionCall function_name args) \<Rightarrow>
          (case args of
             Malformed \<Rightarrow> (Returned InvalidFunctionCall, store)
           | _ \<Rightarrow>
             (case map_of function_mapping function_name of
                None \<Rightarrow> (Returned (UnknownFunction function_name), store)
              | Some sig \<Rightarrow>
                 (case args of
                    Object function_args \<Rightarrow>
                      if binds sig function_args then
                        let function_result = env_run e function_name function_args;
                            function_call_message = FunctionCallMsg function_name function_args;
                            function_result_message = FunctionMsg function_name function_result;
                            msgs2 = msgs @ [function_call_message, function_result_message]
                        in
                        (case env_llm e msgs2 of
                           Some final \<Rightarrow>
                             let final_message =
                                   (case final of Content c \<Rightarrow> c | FunctionCall _ _ \<Rightarrow> [])
                             in
                             (Returned (FunctionAnswer final_message function_name
                                          function_result function_args),
                              extend_messages store session_id session
                                [UserMsg user_message, function_call_message,
                                 function_result_message, AssistantMsg final_message])
                         | None \<Rightarrow>
                             let fallback_msg =
                                   ''I found travel information for you! Here are the details for your travel query.''
                             in
                             (Returned (FunctionAnswer fallback_msg function_name
                                          function_result function_args),
                              extend_messages store session_id session
                                [UserMsg user_message, AssistantMsg fallback_msg]))
                      else (Raised, store)
                  | _ \<Rightarrow> (Raised, store)))))"

definition off_topic_message :: "int \<Rightarrow> string option \<Rightarrow> string" where
  "off_topic_message warnings sugg =
     (if warnings = 1 then
        ''I'' @ [CHR 0x27] @ ''m a travel planning assistant and can only help with travel-related queries. ''
          @ (case sugg of None \<Rightarrow> ''Try asking about travel planning!'' | Some s \<Rightarrow> s)
      else if warnings = 2 then
        ''I'' @ [CHR 0x27] @ ''m specifically designed for travel planning only. Please ask about destinations, hotels, attractions, itineraries, or travel budgets.''
      else if warnings \<ge> 3 then
        ''I can ONLY assist with travel planning. I cannot help with other topics. Please ask about: hotels, attractions, itineraries, travel budgets, or destination recommendations.''
      else
        ''I'' @ [CHR 0x27] @ ''m here exclusively for travel assistance. ''
          @ (case sugg of None \<Rightarrow> [] | Some s \<Rightarrow> s))"

definition reset_message :: string where
  "reset_message =
     ''Chat has been reset due to security violations. Let'' @ [CHR 0x27]
       @ ''s start fresh with safe travel planning!''"

definition block_message :: string where
  "block_message =
     ''I can only assist with safe travel planning. Please ask about hotels, attractions, itineraries, or travel advice.''"

text \<open>The body of \<open>chat\<close> inside its \<open>try\<close>. The store is mutated in place, so
  what was written before an exception stays written.\<close>

definition chat_body :: "env \<Rightarrow> request_body \<Rightarrow> sessions \<Rightarrow> outcome \<times> sessions" where
  "chat_body e body store =
     (case body of
        NoJson \<Rightarrow> (Raised, store)
      | Json msg sid \<Rightarrow>
        (case (case msg of None \<Rightarrow> Some [] | Some (JString s) \<Rightarrow> Some s | Some _ \<Rightarrow> None) of
           None \<Rightarrow> (Raised, store)
         | Some raw \<Rightarrow>
           let user_message = strip raw;
               session_id = (case sid of None \<Rightarrow> ''default'' | Some s \<Rightarrow> s)
           in
           if user_message = [] then (Returned NoMessage, store)
           else
             let store1 = (if store session_id = None
                           then store(session_id \<mapsto> fresh_session (env_now e)) else store);
                 session = the (store1 session_id);
                 session1 = session\<lparr>message_count := message_count session + 1\<rparr>;
                 store2 = store1(session_id \<mapsto> session1)
             in
             if message_count session1 > 50 then (Returned RateLimited, store2)
             else
               let validation_result = validate_content (env_rnd e) user_message in
               if \<not> is_safe validation_result then
                 let session2 = session1\<lparr>security_violations := security_violations session1 + 1\<rparr>;
                     store3 = store2(session_id \<mapsto> session2)
                 in
                 if security_violations session2 \<ge> 2 then
                   (Returned (SessionReset reset_message ''security''),
                    store3(session_id \<mapsto> fresh_session (env_now e)))
                 else
                   (Returned (Blocked block_message ''security'' (security_violations session2)),
                    store3)
               else if \<not> is_travel validation_result then
                 let session2 = session1\<lparr>off_topic_warnings := off_topic_warnings session1 + 1\<rparr>;
                     store3 = store2(session_id \<mapsto> session2)
                 in
                 (Returned (OffTopic
                    (off_topic_message (off_topic_warnings session2) (suggestion validation_result))
                    (v_category validation_result) (off_topic_warnings session2)),
                  store3)
               else converse e user_message session_id session1 store2))"

text \<open>\<open>chat\<close>: the \<open>except Exception\<close> clause turns a raised exception into the
  generic error response.\<close>

definition chat :: "env \<Rightarrow> request_body \<Rightarrow> sessions \<Rightarrow> chat_response \<times> sessions" where
  "chat e body store =
     (case chat_body e body store of
        (Raised, store') \<Rightarrow> (ServiceError, store')
      | (Returned r, store') \<Rightarrow> (r, store'))"

datatype reset_response = ResetAck

definition reset_chat :: "string option \<Rightarrow> sessions \<Rightarrow> reset_response \<times> sessions" where
  "reset_chat sid store =
     (let session_id = (case sid of None \<Rightarrow> ''default'' | Some s \<Rightarrow> s) in
      (ResetAck, store(session_id := None)))"

datatype status_response = SessionActive int int int nat | SessionInactive

definition session_status :: "string option \<Rightarrow> sessions \<Rightarrow> status_response" where
  "session_status sid store =
     (let session_id = (case sid of None \<Rightarrow> ''default'' | Some s \<Rightarrow> s) in
      case store session_id of
        Some session \<Rightarrow>
          SessionActive (message_count session) (off_topic_warnings session)
            (security_violations session) (created_at session)
      | None \<Rightarrow> SessionInactive)"

text \<open>The store over a sequence of requests, starting from the empty store of
  start-up.\<close>

datatype request = ChatRequest env request_body | ResetRequest "string option"

fun handle :: "sessions \<Rightarrow> request \<Rightarrow> sessions" where
  "handle store (ChatRequest e body) = snd (chat e body store)"
| "handle store (ResetRequest sid) = snd (reset_chat sid store)"

definition run :: "request list \<Rightarrow> sessions" where
  "run reqs = foldl handle Map.empty reqs"

section \<open>Sample rows for the concrete evaluations\<close>

definition sample_hotel :: "string \<Rightarrow> string \<Rightarrow> int \<Rightarrow> rat \<Rightarrow> bool \<Rightarrow> hotel" where
  "sample_hotel i c p r a =
     \<lparr>hotel_id = i, hotel_name = ''Hotel '' @ i, hotel_city = c, hotel_category = ''budget'',
      price_per_night = p, hotel_rating = r, amenities = ''wifi'', address = ''1 Main Street'',
      availability = a, hotel_country = ''France''\<rparr>"

definition sample_attraction :: "string \<Rightarrow> string \<Rightarrow> string \<Rightarrow> int \<Rightarrow> rat \<Rightarrow> attraction" where
  "sample_attraction i c cat f r =
     \<lparr>attraction_id = i, attraction_name = ''Sight '' @ i, attraction_city = c,
      attraction_category = cat, entry_fee = f, duration_hours = 2, attraction_rating = r,
      description = ''A sight'', opening_hours = ''9-17'', attraction_country = ''France''\<rparr>"

definition sample_day :: "nat \<Rightarrow> attraction list \<Rightarrow> int \<Rightarrow> day_plan" where
  "sample_day n as cost =
     \<lparr>day = n, day_title = ''Day '' @ digits n, activities = map attraction_name as,
      attraction_details = as, meals = [''Breakfast'', ''Lunch'', ''Dinner''],
      estimated_cost = cost, transportation = ''Metro''\<rparr>"

definition env_text_reply :: env where
  "env_text_reply =
     \<lparr>env_now = 0, env_rnd = 0, env_llm = (\<lambda>msgs. Some (Content ''Paris is lovely in May.'')),
      env_run = (\<lambda>name args. ''{}'')\<rparr>"

text \<open>A model that asks for \<open>search_hotels\<close> with an empty argument object: the
  call \<open>search_hotels()\<close> lacks the required \<open>city\<close> and raises TypeError.\<close>

definition env_unbound_call :: env where
  "env_unbound_call =
     \<lparr>env_now = 0, env_rnd = 0,
      env_llm = (\<lambda>msgs. Some (FunctionCall ''search_hotels'' (Object []))),
      env_run = (\<lambda>name args. ''{}'')\<rparr>"

definition say :: "string \<Rightarrow> string \<Rightarrow> request" where
  "say sid text = ChatRequest env_text_reply (Json (Some (JString text)) (Some sid))"

section \<open>Properties of the validator\<close>

subsection \<open>Concrete validations\<close>

lemma validate_gun: "validate_content r ''gun'' =
   \<lparr>is_safe = False, is_travel = False, action = Block, reason = ''security_violation'',
    v_category = Some ''high_threat'', severity = Some ''critical'', travel_score = None,
    suggestion = None\<rparr>"
  by code_simp

lemma validate_trip: "validate_content r ''trip'' =
    \<lparr>is_safe = True, is_travel = True, action = Allow, reason = ''valid_travel_query'',
     v_category = None, severity = None, travel_score = Some 1, suggestion = None\<rparr>"
  by code_simp

lemma validate_hi: "validate_content r ''hi'' =
    \<lparr>is_safe = True, is_travel = False, action = Redirect, reason = ''non_travel_topic'',
     v_category = Some ''general'', severity = None, travel_score = Some 0,
     suggestion = Some (get_travel_suggestion r)\<rparr>"
  by code_simp

lemma strip_gun: "strip ''gun'' = ''gun''" by code_simp
lemma strip_trip: "strip ''trip'' = ''trip''" by code_simp
lemma strip_hi: "strip ''hi'' = ''hi''" by code_simp

text \<open>C1. Whatever the text and the random draw, the result of \<open>validate_content\<close>
  obeys the action invariant: an unsafe result has action block, a safe result that
  is not travel-related has action redirect, a safe travel-related result has action
  allow; and conversely each action occurs only in its own case, so exactly one
  applies.\<close>

theorem validate_content_action_invariant:
  "(\<not> is_safe (validate_content rnd text) \<longrightarrow> action (validate_content rnd text) = Block)
   \<and> (is_safe (validate_content rnd text) \<and> \<not> is_travel (validate_content rnd text)
        \<longrightarrow> action (validate_content rnd text) = Redirect)
   \<and> (is_safe (validate_content rnd text) \<and> is_travel (validate_content rnd text)
        \<longrightarrow> action (validate_content rnd text) = Allow)
   \<and> (action (validate_content rnd text) = Block) = (\<not> is_safe (validate_content rnd text))
   \<and> (action (validate_content rnd text) = Redirect)
        = (is_safe (validate_content rnd text) \<and> \<not> is_travel (validate_content rnd text))
   \<and> (action (validate_content rnd text) = Allow)
        = (is_safe (validate_content rnd text) \<and> is_travel (validate_content rnd text))"
  by (simp add: validate_content_def Let_def)

text \<open>The three cases of C1 at the messages \<open>gun\<close>, \<open>hi\<close> and \<open>trip\<close>.\<close>

theorem validate_content_action_invariant_witness:
  "action (validate_content 0 ''gun'') = Block
   \<and> action (validate_content 0 ''hi'') = Redirect
   \<and> action (validate_content 0 ''trip'') = Allow"
proof -
  have a: "\<not> is_safe (validate_content 0 ''gun'')"
    by (simp add: validate_gun)
  have b: "is_safe (validate_content 0 ''hi'') \<and> \<not> is_travel (validate_content 0 ''hi'')"
    by (simp add: validate_hi)
  have c: "is_safe (validate_content 0 ''trip'') \<and> is_travel (validate_content 0 ''trip'')"
    by (simp add: validate_trip)
  show ?thesis
    using a b c validate_content_action_invariant[of 0 "''gun''"]
      validate_content_action_invariant[of 0 "''hi''"]
      validate_content_action_invariant[of 0 "''trip''"]
    by blast
qed

subsection \<open>The threat scan\<close>

lemma high_threat_words_shape:
  "\<forall>kw \<in> set high_threat_words. kw \<noteq> [] \<and> is_word_char (hd kw) \<and> is_word_char (last kw)"
  by code_simp

lemma space_not_word: "is_space c \<Longrightarrow> \<not> is_word_char c"
  by (auto simp: is_space_def is_word_char_def is_upper_def is_lower_def Let_def)

lemma of_char_less_256: "(of_char c :: nat) < 256"
  by (cases c) simp

lemma is_word_char_to_lower: "is_word_char (to_lower c) = is_word_char c"
  using of_char_less_256[of c]
  by (auto simp: to_lower_def is_word_char_def is_upper_def is_lower_def Let_def)

lemma ci_prefix_append: "ci_prefix w (w @ s)"
  by (induction w) auto

lemma match_alt_member:
  "w \<in> set ws \<Longrightarrow> alt_matches w prev s \<Longrightarrow> match_alt ws prev s \<noteq> None"
  by (induction ws) auto

lemma alt_matches_occurrence:
  assumes "w \<noteq> []" "is_word_char (last w)" "\<not> is_w (head_opt post)"
  shows "alt_matches w prev (w @ post)"
  using assms by (simp add: alt_matches_def ci_prefix_append last_opt_def word_boundary_def is_w_def)

lemma match_here_occurrence:
  assumes "w \<in> set ws" "w \<noteq> []" "is_word_char (hd w)" "is_word_char (last w)"
    "\<not> is_w prev" "\<not> is_w (head_opt post)"
  shows "match_here ws prev (w @ post) \<noteq> None"
proof -
  have "word_boundary prev (head_opt (w @ post))"
    using assms(2,3,5) by (cases w) (simp_all add: word_boundary_def head_opt_def is_w_def)
  moreover have "match_alt ws prev (w @ post) \<noteq> None"
    using match_alt_member[OF assms(1) alt_matches_occurrence[OF assms(2,4,6)]] .
  ultimately show ?thesis by (simp add: match_here_def)
qed

lemma findall_from_occurrence:
  assumes "w \<in> set ws" "w \<noteq> []" "is_word_char (hd w)" "is_word_char (last w)"
    "\<not> is_w (head_opt post)"
  shows "\<not> is_w (last_opt prev pre) \<Longrightarrow> findall_from ws 0 prev (pre @ w @ post) \<noteq> []"
proof (induction pre arbitrary: prev)
  case Nil
  then have p: "\<not> is_w prev" by (simp add: last_opt_def)
  obtain c cs where w: "w @ post = c # cs" using assms(2) by (cases w) auto
  have "match_here ws prev (c # cs) \<noteq> None"
    using match_here_occurrence[OF assms(1-4) p assms(5)] w by simp
  then show ?case using w by (auto split: option.splits)
next
  case (Cons a pre)
  have "\<not> is_w (last_opt (Some a) pre)"
    using Cons.prems by (simp add: last_opt_def split: if_splits)
  from Cons.IH[OF this] show ?case
    by (auto split: option.splits)
qed

lemma strip_occurrence:
  assumes "w \<noteq> []" "\<not> is_space (hd w)" "\<not> is_space (last w)"
  shows "strip (pre @ w @ post) = dropWhile is_space pre @ w @ rev (dropWhile is_space (rev post))"
proof -
  have a: "dropWhile is_space (pre @ w @ post) = dropWhile is_space pre @ w @ post"
    using assms(1,2) by (cases w) (auto simp: dropWhile_append)
  have b: "dropWhile is_space (rev post @ rev w @ rev (dropWhile is_space pre))
         = dropWhile is_space (rev post) @ rev w @ rev (dropWhile is_space pre)"
    using assms(1,3) by (cases w rule: rev_cases) (auto simp: dropWhile_append)
  show ?thesis by (simp add: strip_def a b)
qed

lemma last_dropWhile:
  "dropWhile P xs \<noteq> [] \<Longrightarrow> last (dropWhile P xs) = last xs"
  by (induction xs) (auto split: if_splits)

lemma hd_rev_dropWhile_rev:
  "rev (dropWhile P (rev xs)) \<noteq> [] \<Longrightarrow> hd (rev (dropWhile P (rev xs))) = hd xs"
proof -
  assume a: "rev (dropWhile P (rev xs)) \<noteq> []"
  then have "dropWhile P (rev xs) \<noteq> []" by simp
  then have "last (dropWhile P (rev xs)) = last (rev xs)" by (rule last_dropWhile)
  moreover have "xs \<noteq> []" using a by auto
  ultimately show ?thesis using a by (simp add: hd_rev last_rev)
qed

lemma head_opt_map: "xs \<noteq> [] \<Longrightarrow> head_opt (map f xs) = Some (f (hd xs))"
  by (cases xs) (simp_all add: head_opt_def)

lemma check_security_threats_high:
  assumes "findall high_threat_words text \<noteq> []"
  shows "\<not> sr_is_safe (check_security_threats text)
       \<and> sr_category (check_security_threats text) = Some ''high_threat''
       \<and> sr_severity (check_security_threats text) = Some ''critical''"
  using assms by (simp add: check_security_threats_def threat_patterns_def threat_words_def Let_def)

text \<open>C2. A text that contains a high-threat keyword, in any letter case, as a whole
  word (the character before it, if any, and the character after it, if any, are not
  word characters) is rejected as unsafe with severity critical and category
  high_threat, whatever else the text contains: the threat scan runs before the
  travel scoring.\<close>

theorem high_threat_keyword_blocks:
  assumes kw: "map to_lower w \<in> set high_threat_words"
    and pre: "pre = [] \<or> \<not> is_word_char (last pre)"
    and post: "post = [] \<or> \<not> is_word_char (hd post)"
  shows "\<not> is_safe (validate_content rnd (pre @ w @ post))
       \<and> severity (validate_content rnd (pre @ w @ post)) = Some ''critical''
       \<and> v_category (validate_content rnd (pre @ w @ post)) = Some ''high_threat''
       \<and> action (validate_content rnd (pre @ w @ post)) = Block"
proof -
  let ?kw = "map to_lower w"
  from kw high_threat_words_shape
  have shape: "?kw \<noteq> []" "is_word_char (hd ?kw)" "is_word_char (last ?kw)" by auto
  then have wne: "w \<noteq> []" by auto
  have hdw: "is_word_char (hd w)"
    using shape(2) wne by (simp add: hd_map is_word_char_to_lower)
  have lastw: "is_word_char (last w)"
    using shape(3) wne by (simp add: last_map is_word_char_to_lower)
  let ?pre = "dropWhile is_space pre"
  let ?post = "rev (dropWhile is_space (rev post))"
  have st: "strip (pre @ w @ post) = ?pre @ w @ ?post"
    using strip_occurrence[OF wne] hdw lastw space_not_word by blast
  have lw: "lower (strip (pre @ w @ post)) = map to_lower ?pre @ ?kw @ map to_lower ?post"
    by (simp add: st lower_def)
  have p1: "\<not> is_w (last_opt None (map to_lower ?pre))"
  proof (cases "?pre = []")
    case True then show ?thesis by (simp add: last_opt_def is_w_def)
  next
    case False
    then have "last ?pre = last pre" by (rule last_dropWhile)
    moreover have "pre \<noteq> []" using False by auto
    ultimately show ?thesis using pre False
      by (simp add: last_opt_def is_w_def last_map is_word_char_to_lower)
  qed
  have p2: "\<not> is_w (head_opt (map to_lower ?post))"
  proof (cases "?post = []")
    case True
    then have "head_opt (map to_lower ?post) = None"
      by (simp only: head_opt_def list.map list.case)
    then show ?thesis by (simp add: is_w_def)
  next
    case False
    then have h: "hd ?post = hd post" by (rule hd_rev_dropWhile_rev)
    have pne: "post \<noteq> []" using False by auto
    have "head_opt (map to_lower ?post) = Some (to_lower (hd ?post))"
      using False by (rule head_opt_map)
    then show ?thesis using post pne h
      by (simp add: is_w_def is_word_char_to_lower)
  qed
  have "findall high_threat_words (lower (strip (pre @ w @ post))) \<noteq> []"
    unfolding findall_def lw
    by (rule findall_from_occurrence[OF kw shape(1) shape(2) shape(3) p2 p1])
  from check_security_threats_high[OF this] wne
  show ?thesis by (simp add: validate_content_def Let_def)
qed

text \<open>C2 at a message full of travel vocabulary with the keyword in capitals.\<close>

theorem high_threat_keyword_blocks_witness:
  "\<not> is_safe (validate_content 0 ''plan a trip to paris, BOMB the hotel in rome'')
   \<and> severity (validate_content 0 ''plan a trip to paris, BOMB the hotel in rome'') = Some ''critical''"
proof -
  have h1: "map to_lower ''BOMB'' \<in> set high_threat_words" by code_simp
  have h2: "''plan a trip to paris, '' = [] \<or> \<not> is_word_char (last ''plan a trip to paris, '')"
    by code_simp
  have h3: "'' the hotel in rome'' = [] \<or> \<not> is_word_char (hd '' the hotel in rome'')"
    by code_simp
  from high_threat_keyword_blocks[OF h1 h2 h3, of 0] show ?thesis by simp
qed

section \<open>Properties of search\_hotels\<close>

text \<open>For every supplied budget other than 0: a budget outside 0 to 5000 gives an
  error, and a success lists only hotels within the budget, sorted by rating
  descending then price ascending, at most 8 of them.\<close>

lemma search_hotels_budget_nonzero:
  assumes "b \<noteq> 0"
  shows "(b < 0 \<or> 5000 < b \<longrightarrow> isl (search_hotels hotels_df city (Some b) cat av))
       \<and> (\<forall>r. search_hotels hotels_df city (Some b) cat av = Inr r \<longrightarrow>
             (\<forall>h \<in> set (hotels r). price_per_night h \<le> b)
             \<and> sorted (map hotel_sort_key (hotels r)) \<and> length (hotels r) \<le> 8)"
proof -
  have s: "sorted (map hotel_sort_key (take 8 (sort_key hotel_sort_key xs)))" for xs
    by (simp add: take_map[symmetric] sorted_wrt_take)
  have m: "h \<in> set (take 8 (sort_key hotel_sort_key xs)) \<Longrightarrow> h \<in> set xs" for h xs
    by (auto dest: in_set_takeD)
  show ?thesis
    using assms
    by (auto simp: search_hotels_def Let_def s split: if_splits dest!: m)
qed

text \<open>C4. At \<open>budget_max = 0\<close> the test \<open>if budget_max:\<close> is false and the budget
  filter is skipped: on a dataset with one available Paris hotel of price 120,
  \<open>search_hotels('Paris', budget_max=0)\<close> succeeds and returns that hotel, whose
  price is above the budget.\<close>

theorem search_hotels_budget_zero_unfiltered:
  "search_hotels [sample_hotel ''H1'' ''Paris'' 120 4 True] ''Paris'' (Some 0) None True
     = Inr \<lparr>hr_city = ''Paris'', hr_country = ''France'', hotels_found = 1,
            hotels = [sample_hotel ''H1'' ''Paris'' 120 4 True],
            hr_budget_max = Some 0, hr_category = None, hr_availability_check = True\<rparr>
   \<and> \<not> price_per_night (sample_hotel ''H1'' ''Paris'' 120 4 True) \<le> 0"
  by code_simp

lemma sort_key_eq_Nil: "(sort_key f xs = []) = (xs = [])"
  by (metis length_0_conv length_sort)

text \<open>C7 (amended). A city with no row in the dataset never gives a success, and no
  success is empty. When the city string is not empty and the dataset has rows, the
  result for such a city is the unknown-city error, which lists the sorted distinct
  city names of the dataset. For a city that has rows, no error lists cities; and
  when budget and category are valid and the budget, category and availability
  filters leave no hotel of the city, the result is the no-match error with the
  suggestion to adjust budget or category.\<close>

theorem search_hotels_unknown_city:
  "(filter (\<lambda>h. lower (hotel_city h) = lower (title (strip city))) hotels_df = []
      \<longrightarrow> isl (search_hotels hotels_df city b cat av))
   \<and> (\<forall>r. search_hotels hotels_df city b cat av = Inr r \<longrightarrow> hotels r \<noteq> [])
   \<and> (filter (\<lambda>h. lower (hotel_city h) = lower (title (strip city))) hotels_df = []
       \<and> city \<noteq> [] \<and> hotels_df \<noteq> []
      \<longrightarrow> search_hotels hotels_df city b cat av =
           Inl \<lparr>error = ''No hotels found in '' @ title (strip city),
                available_cities = Some (sort (remdups (map hotel_city hotels_df))),
                available_categories = None,
                err_suggestion = Some (''Try one of these cities: ''
                   @ join '', '' (take 5 (sort (remdups (map hotel_city hotels_df)))))\<rparr>)
   \<and> (\<forall>e. filter (\<lambda>h. lower (hotel_city h) = lower (title (strip city))) hotels_df \<noteq> []
        \<and> search_hotels hotels_df city b cat av = Inl e
      \<longrightarrow> available_cities e = None
          \<and> (e = plain_error ''City parameter is required and must be a valid string''
             \<or> e = plain_error ''Budget must be a positive integer between 0 and 5000 USD''
             \<or> e = plain_error (''Category must be one of: '' @ join '', '' valid_categories)
             \<or> e = \<lparr>error = ''No hotels found matching your criteria in '' @ title (strip city),
                     available_cities = None, available_categories = None,
                     err_suggestion = Some ''Try adjusting your budget or category preferences''\<rparr>))
   \<and> (city \<noteq> []
       \<and> filter (\<lambda>h. lower (hotel_city h) = lower (title (strip city))) hotels_df \<noteq> []
       \<and> (b = None \<or> b = Some 0 \<or> (0 \<le> the b \<and> the b \<le> 5000))
       \<and> (cat = None \<or> cat = Some [] \<or> lower (the cat) \<in> set valid_categories)
       \<and> filter (\<lambda>h. (av \<longrightarrow> availability h)
                    \<and> (cat \<noteq> None \<and> cat \<noteq> Some []
                          \<longrightarrow> lower (hotel_category h) = lower (the cat))
                    \<and> (b \<noteq> None \<and> b \<noteq> Some 0 \<longrightarrow> price_per_night h \<le> the b)
                    \<and> lower (hotel_city h) = lower (title (strip city))) hotels_df = []
      \<longrightarrow> search_hotels hotels_df city b cat av =
            Inl \<lparr>error = ''No hotels found matching your criteria in '' @ title (strip city),
                 available_cities = None, available_categories = None,
                 err_suggestion = Some ''Try adjusting your budget or category preferences''\<rparr>)"
proof (intro conjI)
  show "filter (\<lambda>h. lower (hotel_city h) = lower (title (strip city))) hotels_df = []
      \<longrightarrow> isl (search_hotels hotels_df city b cat av)"
    by (simp add: search_hotels_def Let_def)
next
  show "\<forall>r. search_hotels hotels_df city b cat av = Inr r \<longrightarrow> hotels r \<noteq> []"
    by (auto simp: search_hotels_def Let_def sort_key_eq_Nil split: if_splits)
next
  show "filter (\<lambda>h. lower (hotel_city h) = lower (title (strip city))) hotels_df = []
       \<and> city \<noteq> [] \<and> hotels_df \<noteq> []
      \<longrightarrow> search_hotels hotels_df city b cat av =
           Inl \<lparr>error = ''No hotels found in '' @ title (strip city),
                available_cities = Some (sort (remdups (map hotel_city hotels_df))),
                available_categories = None,
                err_suggestion = Some (''Try one of these cities: ''
                   @ join '', '' (take 5 (sort (remdups (map hotel_city hotels_df)))))\<rparr>"
    by (simp add: search_hotels_def Let_def)
next
  show "\<forall>e. filter (\<lambda>h. lower (hotel_city h) = lower (title (strip city))) hotels_df \<noteq> []
        \<and> search_hotels hotels_df city b cat av = Inl e
      \<longrightarrow> available_cities e = None
          \<and> (e = plain_error ''City parameter is required and must be a valid string''
             \<or> e = plain_error ''Budget must be a positive integer between 0 and 5000 USD''
             \<or> e = plain_error (''Category must be one of: '' @ join '', '' valid_categories)
             \<or> e = \<lparr>error = ''No hotels found matching your criteria in '' @ title (strip city),
                     available_cities = None, available_categories = None,
                     err_suggestion = Some ''Try adjusting your budget or category preferences''\<rparr>)"
    by (auto simp: search_hotels_def Let_def plain_error_def split: if_splits)
next
  show "city \<noteq> []
       \<and> filter (\<lambda>h. lower (hotel_city h) = lower (title (strip city))) hotels_df \<noteq> []
       \<and> (b = None \<or> b = Some 0 \<or> (0 \<le> the b \<and> the b \<le> 5000))
       \<and> (cat = None \<or> cat = Some [] \<or> lower (the cat) \<in> set valid_categories)
       \<and> filter (\<lambda>h. (av \<longrightarrow> availability h)
                    \<and> (cat \<noteq> None \<and> cat \<noteq> Some []
                          \<longrightarrow> lower (hotel_category h) = lower (the cat))
                    \<and> (b \<noteq> None \<and> b \<noteq> Some 0 \<longrightarrow> price_per_night h \<le> the b)
                    \<and> lower (hotel_city h) = lower (title (strip city))) hotels_df = []
      \<longrightarrow> search_hotels hotels_df city b cat av =
            Inl \<lparr>error = ''No hotels found matching your criteria in '' @ title (strip city),
                 available_cities = None, available_categories = None,
                 err_suggestion = Some ''Try adjusting your budget or category preferences''\<rparr>"
  proof (intro impI, elim conjE)
    assume c: "city \<noteq> []"
      and k: "filter (\<lambda>h. lower (hotel_city h) = lower (title (strip city))) hotels_df \<noteq> []"
      and vb: "b = None \<or> b = Some 0 \<or> (0 \<le> the b \<and> the b \<le> 5000)"
      and vc: "cat = None \<or> cat = Some [] \<or> lower (the cat) \<in> set valid_categories"
      and f: "filter (\<lambda>h. (av \<longrightarrow> availability h)
                    \<and> (cat \<noteq> None \<and> cat \<noteq> Some []
                          \<longrightarrow> lower (hotel_category h) = lower (the cat))
                    \<and> (b \<noteq> None \<and> b \<noteq> Some 0 \<longrightarrow> price_per_night h \<le> the b)
                    \<and> lower (hotel_city h) = lower (title (strip city))) hotels_df = []"
    have ne: "hotels_df \<noteq> []" using k by auto
    have bg: "(case b of None \<Rightarrow> False | Some x \<Rightarrow> x \<noteq> 0) = (b \<noteq> None \<and> b \<noteq> Some 0)"
      by (cases b) auto
    have cg: "(case cat of None \<Rightarrow> False | Some x \<Rightarrow> x \<noteq> []) = (cat \<noteq> None \<and> cat \<noteq> Some [])"
      by (cases cat) auto
    show "search_hotels hotels_df city b cat av =
            Inl \<lparr>error = ''No hotels found matching your criteria in '' @ title (strip city),
                 available_cities = None, available_categories = None,
                 err_suggestion = Some ''Try adjusting your budget or category preferences''\<rparr>"
      using c k ne vb vc f
      unfolding search_hotels_def Let_def bg cg
      by (auto simp: filter_empty_conv)
  qed
qed

text \<open>C7 as stated fails for the empty city string and for the empty dataset: both
  give an error that lists no city.\<close>

theorem search_hotels_unknown_city_counterexample:
  "filter (\<lambda>h. lower (hotel_city h) = lower (title (strip ''''))) [sample_hotel ''H1'' ''Paris'' 120 4 True] = []
   \<and> search_hotels [sample_hotel ''H1'' ''Paris'' 120 4 True] '''' None None True
       = Inl \<lparr>error = ''City parameter is required and must be a valid string'',
              available_cities = None, available_categories = None, err_suggestion = None\<rparr>
   \<and> search_hotels [] ''Atlantis'' None None True
       = Inl \<lparr>error = ''Hotel database is currently unavailable'',
              available_cities = None, available_categories = None, err_suggestion = None\<rparr>"
  by code_simp

text \<open>C7 at an unknown city, and the different error of a known city whose hotels
  are all above the budget.\<close>

theorem search_hotels_unknown_city_witness:
  "search_hotels [sample_hotel ''H1'' ''Paris'' 120 4 True] ''rome'' None None True =
     Inl \<lparr>error = ''No hotels found in Rome'', available_cities = Some [''Paris''],
          available_categories = None,
          err_suggestion = Some ''Try one of these cities: Paris''\<rparr>
   \<and> search_hotels [sample_hotel ''H1'' ''Paris'' 120 4 True] ''paris'' (Some 50) None True =
     Inl \<lparr>error = ''No hotels found matching your criteria in Paris'', available_cities = None,
          available_categories = None,
          err_suggestion = Some ''Try adjusting your budget or category preferences''\<rparr>"
proof -
  let ?df = "[sample_hotel ''H1'' ''Paris'' 120 4 True]"
  have h: "filter (\<lambda>h. lower (hotel_city h) = lower (title (strip ''rome''))) ?df = []
        \<and> ''rome'' \<noteq> [] \<and> ?df \<noteq> []" by code_simp
  have t: "title (strip ''rome'') = ''Rome''" by code_simp
  have t2: "title (strip ''paris'') = ''Paris''" by code_simp
  have c: "sort (remdups (map hotel_city ?df)) = [''Paris'']" by code_simp
  have k: "''paris'' \<noteq> []
       \<and> filter (\<lambda>h. lower (hotel_city h) = lower (title (strip ''paris''))) ?df \<noteq> []
       \<and> (Some (50::int) = None \<or> Some 50 = Some (0::int) \<or> (0 \<le> the (Some (50::int)) \<and> the (Some (50::int)) \<le> 5000))
       \<and> ((None :: string option) = None \<or> (None :: string option) = Some []
            \<or> lower (the (None :: string option)) \<in> set valid_categories)
       \<and> filter (\<lambda>h. (True \<longrightarrow> availability h)
                    \<and> ((None :: string option) \<noteq> None \<and> (None :: string option) \<noteq> Some []
                          \<longrightarrow> lower (hotel_category h) = lower (the None))
                    \<and> (Some (50::int) \<noteq> None \<and> Some 50 \<noteq> Some (0::int)
                          \<longrightarrow> price_per_night h \<le> the (Some 50))
                    \<and> lower (hotel_city h) = lower (title (strip ''paris''))) ?df = []"
    unfolding t2 by (simp add: sample_hotel_def)
  from search_hotels_unknown_city[of "''paris''" ?df "Some 50" None True] k
  have e: "search_hotels ?df ''paris'' (Some 50) None True =
            Inl \<lparr>error = ''No hotels found matching your criteria in '' @ title (strip ''paris''),
                 available_cities = None, available_categories = None,
                 err_suggestion = Some ''Try adjusting your budget or category preferences''\<rparr>"
    by blast
  from search_hotels_unknown_city[of "''rome''" ?df None None True] h
  have "search_hotels ?df ''rome'' None None True =
           Inl \<lparr>error = ''No hotels found in '' @ title (strip ''rome''),
                available_cities = Some (sort (remdups (map hotel_city ?df))),
                available_categories = None,
                err_suggestion = Some (''Try one of these cities: ''
                   @ join '', '' (take 5 (sort (remdups (map hotel_city ?df)))))\<rparr>"
    by blast
  then show ?thesis using e by (simp add: t t2 c sample_hotel_def)
qed

section \<open>Properties of create\_itinerary\<close>

lemma hd_filter_fresh:
  "filter (\<lambda>a. attraction_id a \<notin> used) xs \<noteq> []
   \<Longrightarrow> attraction_id (hd (filter (\<lambda>a. attraction_id a \<notin> used) xs)) \<notin> used"
  using hd_in_set[of "filter (\<lambda>a. attraction_id a \<notin> used) xs"] by auto

lemma day_inv_select:
  assumes "day_inv used0 (das, used, c)" "attraction_id a \<notin> used"
  shows "day_inv used0 (das @ [a], insert (attraction_id a) used, c')"
  using assms by (auto simp: day_inv_def)

lemma pick_by_category_inv:
  "day_inv used0 st \<Longrightarrow> day_inv used0 (pick_by_category cats per_day st)"
proof (induction cats per_day st rule: pick_by_category.induct)
  case (1 per_day st)
  then show ?case by simp
next
  case (2 c xs rest per_day das used cost)
  show ?case
  proof (cases "filter (\<lambda>a. attraction_id a \<notin> used) xs \<noteq> [] \<and> length das < per_day")
    case True
    then have "attraction_id (hd (filter (\<lambda>a. attraction_id a \<notin> used) xs)) \<notin> used"
      using hd_filter_fresh by blast
    from day_inv_select[OF "2.prems" this] "2.IH"(1)[OF refl _ refl] True
    show ?thesis by (simp add: Let_def)
  next
    case False
    with "2.IH"(2)[OF refl] "2.prems" show ?thesis by (auto simp: Let_def)
  qed
qed

lemma fill_remaining_inv:
  "day_inv used0 st \<Longrightarrow> day_inv used0 (fill_remaining as per_day st)"
proof (induction as per_day st rule: fill_remaining.induct)
  case (1 as per_day das used cost)
  show ?case
  proof (cases "length das < per_day \<and> filter (\<lambda>a. attraction_id a \<notin> used) as \<noteq> []")
    case True
    then have "attraction_id (hd (filter (\<lambda>a. attraction_id a \<notin> used) as)) \<notin> used"
      using hd_filter_fresh by blast
    from day_inv_select[OF "1.prems" this] "1.IH"[OF _ refl _ refl] True
    show ?thesis by (simp add: Let_def)
  next
    case False
    with "1.prems" show ?thesis by (auto simp: Let_def)
  qed
qed

lemma plan_days_distinct:
  "plan_days city as cats per_day ds used = (plans, used') \<Longrightarrow>
     distinct (concat (map (\<lambda>p. map attraction_id (attraction_details p)) plans))
     \<and> set (concat (map (\<lambda>p. map attraction_id (attraction_details p)) plans)) \<inter> used = {}
     \<and> used' = used \<union> set (concat (map (\<lambda>p. map attraction_id (attraction_details p)) plans))"
proof (induction ds arbitrary: used plans used')
  case Nil
  then show ?case by simp
next
  case (Cons d ds)
  obtain das used1 cost where st:
    "fill_remaining as per_day (pick_by_category cats per_day ([], used, 50)) = (das, used1, cost)"
    by (cases "fill_remaining as per_day (pick_by_category cats per_day ([], used, 50))") auto
  obtain rest used2 where r: "plan_days city as cats per_day ds used1 = (rest, used2)"
    by (cases "plan_days city as cats per_day ds used1") auto
  have "day_inv used ([], used, 50)" by (simp add: day_inv_def)
  then have "day_inv used (das, used1, cost)"
    using fill_remaining_inv[OF pick_by_category_inv] st by metis
  then have d1: "distinct (map attraction_id das)"
    and d2: "set (map attraction_id das) \<inter> used = {}"
    and d3: "used1 = used \<union> set (map attraction_id das)"
    by (auto simp: day_inv_def)
  define R where "R = concat (map (\<lambda>p. map attraction_id (attraction_details p)) rest)"
  define D where "D = map attraction_id das"
  from Cons.IH[OF r]
  have i1: "distinct R" and i2: "set R \<inter> used1 = {}" and i3: "used2 = used1 \<union> set R"
    by (simp_all add: R_def)
  from Cons.prems st r
  obtain p0 where pl: "plans = p0 # rest" "attraction_details p0 = das" "used' = used2"
    by (cases plans) auto
  have c: "concat (map (\<lambda>p. map attraction_id (attraction_details p)) plans) = D @ R"
    by (simp add: pl R_def D_def)
  have "distinct (D @ R)"
    using d1 i1 i2 d3 by (auto simp: D_def)
  moreover have "set (D @ R) \<inter> used = {}"
    using d2 i2 d3 by (auto simp: D_def)
  moreover have "used' = used \<union> set (D @ R)"
    using pl(3) i3 d3 by (auto simp: D_def)
  ultimately show ?case unfolding c by blast
qed

lemma get_attractions_length:
  "get_attractions df city cat fee = Inr r \<Longrightarrow> length (attractions r) \<le> 12"
  by (auto simp: get_attractions_def Let_def split: if_splits)

text \<open>C5 (amended). In every itinerary that \<open>create_itinerary\<close> returns,
  \<open>total_estimated_cost\<close> is the sum of the days' \<open>estimated_cost\<close>. In every
  generated itinerary the attraction ids of the days are pairwise distinct over the
  whole itinerary, so none is in two different days. A curated itinerary is the
  stored template as it is, whatever attractions its days name.\<close>

theorem create_itinerary_total_and_generated_no_repeat:
  assumes "create_itinerary tpl df city d interests = Inr r"
  shows "total_estimated_cost r = sum_list (day_costs (itinerary r))
       \<and> (itinerary_type r = ''custom_generated''
            \<longrightarrow> distinct (concat (day_attraction_ids (itinerary r))))
       \<and> (\<forall>t. find_template tpl (title (strip city)) d = Some t
            \<longrightarrow> itinerary r = t \<and> itinerary_type r = ''curated_template'')
       \<and> (find_template tpl (title (strip city)) d = None
            \<longrightarrow> itinerary_type r = ''custom_generated'')"
proof (cases "find_template tpl (title (strip city)) d")
  case (Some t)
  with assms have "itinerary r = t" "itinerary_type r = ''curated_template''"
      "total_estimated_cost r = sum_list (map estimated_cost t)"
    by (auto simp: create_itinerary_def Let_def split: if_splits)
  with Some show ?thesis by (simp add: day_costs_def)
next
  case None
  with assms obtain ar plans used where
    g: "get_attractions df (title (strip city)) None None = Inr ar"
    and p: "plan_days (title (strip city)) (attractions ar) (categorize (attractions ar))
              (max 2 (length (attractions ar) div nat d)) [1 ..< nat d + 1] {} = (plans, used)"
    and r: "itinerary r = plans" "itinerary_type r = ''custom_generated''"
      "total_estimated_cost r = sum_list (map estimated_cost plans)"
    by (auto simp: create_itinerary_def Let_def split: if_splits sum.splits prod.splits)
  from plan_days_distinct[OF p] r None show ?thesis
    by (simp add: day_costs_def day_attraction_ids_def)
qed

text \<open>C5 as stated fails for curated itineraries: a stored two-day template whose
  days both name the attraction \<open>A1\<close> is returned as it is.\<close>

theorem create_itinerary_curated_repeat_counterexample:
  "(\<exists>r. create_itinerary
          (Map.empty(''Paris'' \<mapsto> Map.empty(''2_days'' \<mapsto>
             [sample_day 1 [sample_attraction ''A1'' ''Paris'' ''Museum'' 10 4] 100,
              sample_day 2 [sample_attraction ''A1'' ''Paris'' ''Museum'' 10 4] 150])))
          [] ''paris'' 2 None = Inr r
        \<and> itinerary_type r = ''curated_template''
        \<and> day_attraction_ids (itinerary r) = [[''A1''], [''A1'']])
   \<and> \<not> distinct (concat [[''A1''], [''A1'']])"
proof -
  let ?tpl = "Map.empty(''Paris'' \<mapsto> Map.empty(''2_days'' \<mapsto>
             [sample_day 1 [sample_attraction ''A1'' ''Paris'' ''Museum'' 10 4] 100,
              sample_day 2 [sample_attraction ''A1'' ''Paris'' ''Museum'' 10 4] 150]))"
  have "map_sum (\<lambda>e. ()) (\<lambda>r. (itinerary_type r, day_attraction_ids (itinerary r)))
          (create_itinerary ?tpl [] ''paris'' 2 None)
        = Inr (''curated_template'', [[''A1''], [''A1'']])"
    by code_simp
  then have "\<exists>r. create_itinerary ?tpl [] ''paris'' 2 None = Inr r
        \<and> itinerary_type r = ''curated_template''
        \<and> day_attraction_ids (itinerary r) = [[''A1''], [''A1'']]"
    by (cases "create_itinerary ?tpl [] ''paris'' 2 None") auto
  then show ?thesis by simp
qed

text \<open>C5 at a generated two-day itinerary over four attractions and at a curated
  two-day template.\<close>

theorem create_itinerary_total_and_generated_no_repeat_witness:
  "(\<exists>r. create_itinerary Map.empty
          [sample_attraction ''A1'' ''Paris'' ''Museum'' 10 4,
           sample_attraction ''A2'' ''Paris'' ''Museum'' 12 5,
           sample_attraction ''A3'' ''Paris'' ''Park'' 0 3,
           sample_attraction ''A4'' ''Paris'' ''Park'' 5 3] ''paris'' 2 None = Inr r
        \<and> day_attraction_ids (itinerary r) = [[''A2'', ''A3''], [''A1'', ''A4'']]
        \<and> day_costs (itinerary r) = [62, 65]
        \<and> total_estimated_cost r = 127
        \<and> distinct (concat (day_attraction_ids (itinerary r))))
   \<and> (\<exists>r. create_itinerary
          (Map.empty(''Paris'' \<mapsto> Map.empty(''2_days'' \<mapsto>
             [sample_day 1 [sample_attraction ''A1'' ''Paris'' ''Museum'' 10 4] 100,
              sample_day 2 [sample_attraction ''A2'' ''Paris'' ''Museum'' 12 5] 150])))
          [] ''paris'' 2 None = Inr r
        \<and> itinerary r =
            [sample_day 1 [sample_attraction ''A1'' ''Paris'' ''Museum'' 10 4] 100,
             sample_day 2 [sample_attraction ''A2'' ''Paris'' ''Museum'' 12 5] 150]
        \<and> total_estimated_cost r = 250
        \<and> total_estimated_cost r = sum_list (day_costs (itinerary r)))"
proof -
  let ?df = "[sample_attraction ''A1'' ''Paris'' ''Museum'' 10 4,
           sample_attraction ''A2'' ''Paris'' ''Museum'' 12 5,
           sample_attraction ''A3'' ''Paris'' ''Park'' 0 3,
           sample_attraction ''A4'' ''Paris'' ''Park'' 5 3]"
  let ?t = "[sample_day 1 [sample_attraction ''A1'' ''Paris'' ''Museum'' 10 4] 100,
             sample_day 2 [sample_attraction ''A2'' ''Paris'' ''Museum'' 12 5] 150]"
  let ?tpl = "Map.empty(''Paris'' \<mapsto> Map.empty(''2_days'' \<mapsto> ?t))"
  have a: "map_sum (\<lambda>e. ()) (\<lambda>r. (itinerary_type r, day_attraction_ids (itinerary r),
              day_costs (itinerary r), total_estimated_cost r))
            (create_itinerary Map.empty ?df ''paris'' 2 None)
         = Inr (''custom_generated'', [[''A2'', ''A3''], [''A1'', ''A4'']], [62, 65], 127)"
    by code_simp
  then obtain r where r: "create_itinerary Map.empty ?df ''paris'' 2 None = Inr r"
    by (cases "create_itinerary Map.empty ?df ''paris'' 2 None") auto
  have b: "map_sum (\<lambda>e. ()) (\<lambda>r. total_estimated_cost r)
            (create_itinerary ?tpl [] ''paris'' 2 None) = Inr 250"
    by code_simp
  then obtain q where q: "create_itinerary ?tpl [] ''paris'' 2 None = Inr q"
    by (cases "create_itinerary ?tpl [] ''paris'' 2 None") auto
  have f: "find_template ?tpl (title (strip ''paris'')) 2 = Some ?t"
    by code_simp
  from create_itinerary_total_and_generated_no_repeat[OF r]
    create_itinerary_total_and_generated_no_repeat[OF q] a b r q f
  show ?thesis by auto
qed

subsection \<open>Long itineraries\<close>

text \<open>C10 (amended). Without a curated template for the city and duration, a
  request for 7 days or more never succeeds. When moreover the duration is at most
  14, the city string is not empty and \<open>get_attractions\<close> succeeds for the city,
  the result is the insufficient-attraction-data error: \<open>get_attractions\<close> returns
  at most 12 attractions, fewer than twice the duration.\<close>

theorem create_itinerary_week_needs_template:
  assumes "find_template tpl (title (strip city)) d = None" and "7 \<le> d"
  shows "isl (create_itinerary tpl df city d interests)
       \<and> (\<forall>ar. city \<noteq> [] \<and> d \<le> 14
             \<and> get_attractions df (title (strip city)) None None = Inr ar
           \<longrightarrow> create_itinerary tpl df city d interests =
                 Inl \<lparr>error = ''Insufficient attraction data for '' @ str_int d
                                @ '' days in '' @ title (strip city),
                      available_cities = None, available_categories = None,
                      err_suggestion =
                        Some ''Try a shorter duration or a different destination''\<rparr>)"
proof -
  have short: "int (length (attractions ar)) < d * 2"
    if "get_attractions df (title (strip city)) None None = Inr ar" for ar
    using get_attractions_length[OF that] assms(2) by linarith
  show ?thesis
    using assms(1) short
    by (auto simp: create_itinerary_def Let_def split: sum.splits)
qed

text \<open>C10 as stated fails for a city without attractions in the dataset, which gets
  the unknown-city error, and for a duration above 14, which gets the duration
  error.\<close>

theorem create_itinerary_week_counterexample:
  "find_template Map.empty (title (strip ''Atlantis'')) 7 = None
   \<and> create_itinerary Map.empty [sample_attraction ''A1'' ''Paris'' ''Museum'' 10 4]
       ''Atlantis'' 7 None =
     Inl \<lparr>error = ''No attractions found in Atlantis'', available_cities = Some [''Paris''],
          available_categories = None,
          err_suggestion = Some ''Try one of these cities: Paris''\<rparr>
   \<and> find_template Map.empty (title (strip ''Paris'')) 15 = None
   \<and> create_itinerary Map.empty [sample_attraction ''A1'' ''Paris'' ''Museum'' 10 4]
       ''Paris'' 15 None =
     Inl \<lparr>error = ''Duration must be between 1 and 14 days'', available_cities = None,
          available_categories = None, err_suggestion = None\<rparr>"
  by code_simp

text \<open>C10 at fourteen Paris attractions and seven days: twice seven attractions
  exist, twelve are returned.\<close>

theorem create_itinerary_week_needs_template_witness:
  "create_itinerary Map.empty
      (map (\<lambda>i. sample_attraction (digits i) ''Paris'' ''Museum'' 10 4) [0 ..< 14])
      ''paris'' 7 None =
     Inl \<lparr>error = ''Insufficient attraction data for 7 days in Paris'',
          available_cities = None, available_categories = None,
          err_suggestion = Some ''Try a shorter duration or a different destination''\<rparr>
   \<and> length (map (\<lambda>i. sample_attraction (digits i) ''Paris'' ''Museum'' 10 4) [0 ..< 14])
       = 2 * 7"
proof -
  let ?df = "map (\<lambda>i. sample_attraction (digits i) ''Paris'' ''Museum'' 10 4) [0 ..< 14]"
  have t: "title (strip ''paris'') = ''Paris''" by code_simp
  have f: "find_template Map.empty (title (strip ''paris'')) 7 = None"
    by (simp add: find_template_def)
  have g: "\<not> isl (get_attractions ?df (title (strip ''paris'')) None None)"
    unfolding t by code_simp
  then obtain ar where ar: "get_attractions ?df (title (strip ''paris'')) None None = Inr ar"
    by (cases "get_attractions ?df (title (strip ''paris'')) None None") auto
  have s: "str_int 7 = ''7''" by code_simp
  from create_itinerary_week_needs_template[OF f, of ?df None] ar
  have "create_itinerary Map.empty ?df ''paris'' 7 None =
                 Inl \<lparr>error = ''Insufficient attraction data for '' @ str_int 7
                                @ '' days in '' @ title (strip ''paris''),
                      available_cities = None, available_categories = None,
                      err_suggestion =
                        Some ''Try a shorter duration or a different destination''\<rparr>"
    by auto
  then show ?thesis by (simp add: t s)
qed

section \<open>Properties of get\_travel\_budget\_estimate\<close>






















section \<open>Properties of the chat handler\<close>

lemma chat_unsafe:
  assumes "strip raw \<noteq> []"
    and "\<not> is_safe (validate_content (env_rnd e) (strip raw))"
    and "s = (case store sid of None \<Rightarrow> fresh_session (env_now e) | Some s' \<Rightarrow> s')"
    and "message_count s < 50"
  shows "chat e (Json (Some (JString raw)) (Some sid)) store =
     (if security_violations s + 1 \<ge> 2
      then (SessionReset reset_message ''security'', store(sid \<mapsto> fresh_session (env_now e)))
      else (Blocked block_message ''security'' (security_violations s + 1),
            store(sid \<mapsto> s\<lparr>message_count := message_count s + 1,
                             security_violations := security_violations s + 1\<rparr>)))"
  using assms by (auto simp: chat_def chat_body_def Let_def split: option.splits)

lemma converse_store:
  "snd (converse e um sid session store) k = Some s' \<Longrightarrow>
     store k = Some s' \<or> (k = sid \<and> security_violations s' = security_violations session
        \<and> message_count s' = message_count session
        \<and> off_topic_warnings s' = off_topic_warnings session)"
  by (auto simp: converse_def extend_messages_def Let_def
      split: option.splits llm_reply.splits arguments.splits if_splits)

lemma converse_raised:
  "fst (converse e um sid session store) = Raised \<Longrightarrow> snd (converse e um sid session store) = store"
  by (auto simp: converse_def extend_messages_def Let_def
      split: option.splits llm_reply.splits arguments.splits if_splits)

lemma chat_body_violations:
  assumes inv: "\<And>k s. store k = Some s \<Longrightarrow> security_violations s < 2"
    and res: "snd (chat_body e body store) k = Some s'"
  shows "security_violations s' < 2"
proof (cases body)
  case NoJson
  with res inv show ?thesis by (simp add: chat_body_def)
next
  case (Json msg sid)
  show ?thesis
  proof (cases "case msg of None \<Rightarrow> Some [] | Some (JString s) \<Rightarrow> Some s | Some _ \<Rightarrow> None")
    case None
    with res inv Json show ?thesis by (simp add: chat_body_def)
  next
    case (Some raw)
    define session_id where "session_id = (case sid of None \<Rightarrow> ''default'' | Some s \<Rightarrow> s)"
    define store1 where "store1 = (if store session_id = None
        then store(session_id \<mapsto> fresh_session (env_now e)) else store)"
    define session1 where
      "session1 = (the (store1 session_id))\<lparr>message_count := message_count (the (store1 session_id)) + 1\<rparr>"
    define store2 where "store2 = store1(session_id \<mapsto> session1)"
    have inv1: "store1 k' = Some t \<Longrightarrow> security_violations t < 2" for k' t
      using inv by (auto simp: store1_def fresh_session_def split: if_splits)
    have s1: "security_violations session1 < 2"
      using inv1[of session_id] by (auto simp: session1_def store1_def fresh_session_def)
    have inv2: "store2 k' = Some t \<Longrightarrow> security_violations t < 2" for k' t
      using inv1 s1 by (auto simp: store2_def split: if_splits)
    have cb: "chat_body e body store =
        (if strip raw = [] then (Returned NoMessage, store)
         else if message_count session1 > 50 then (Returned RateLimited, store2)
         else if \<not> is_safe (validate_content (env_rnd e) (strip raw)) then
           (if security_violations session1 + 1 \<ge> 2 then
              (Returned (SessionReset reset_message ''security''),
               store2(session_id \<mapsto> fresh_session (env_now e)))
            else (Returned (Blocked block_message ''security'' (security_violations session1 + 1)),
                  store2(session_id \<mapsto> session1\<lparr>security_violations := security_violations session1 + 1\<rparr>)))
         else if \<not> is_travel (validate_content (env_rnd e) (strip raw)) then
           (Returned (OffTopic
              (off_topic_message (off_topic_warnings session1 + 1)
                 (suggestion (validate_content (env_rnd e) (strip raw))))
              (v_category (validate_content (env_rnd e) (strip raw)))
              (off_topic_warnings session1 + 1)),
            store2(session_id \<mapsto> session1\<lparr>off_topic_warnings := off_topic_warnings session1 + 1\<rparr>))
         else converse e (strip raw) session_id session1 store2)"
      using Json Some
      by (simp add: chat_body_def Let_def session_id_def store1_def session1_def store2_def)
    show ?thesis
      using res inv inv2 s1 converse_store[of e "strip raw" session_id session1 store2 k s']
      unfolding cb
      by (auto simp: fresh_session_def split: if_splits)
  qed
qed

lemma handle_violations:
  assumes "\<And>k s. store k = Some s \<Longrightarrow> security_violations s < 2"
    and "handle store req k = Some s'"
  shows "security_violations s' < 2"
proof (cases req)
  case (ChatRequest e body)
  have "snd (chat e body store) = snd (chat_body e body store)"
    by (auto simp: chat_def split: prod.splits outcome.splits)
  with assms ChatRequest chat_body_violations[of store e body k s'] show ?thesis by auto
next
  case (ResetRequest sid)
  with assms show ?thesis by (auto simp: reset_chat_def Let_def split: if_splits)
qed

lemma foldl_handle_violations:
  "(\<And>k s. store k = Some s \<Longrightarrow> security_violations s < 2) \<Longrightarrow>
   foldl handle store reqs k = Some s' \<Longrightarrow> security_violations s' < 2"
proof (induction reqs arbitrary: store k s')
  case Nil
  then show ?case by simp
next
  case (Cons r reqs)
  show ?case
    by (rule Cons.IH[of "handle store r" k s'])
       (use Cons.prems handle_violations[of store] in auto)
qed

text \<open>C3 (amended). In a turn that passes the rate limit (the session's
  \<open>message_count\<close> before the turn is below 50), an unsafe message to a session
  that already has a violation resets it: the stored record becomes a fresh one, with
  empty history and no violation, and the response is the fresh-start message with
  reason security. An unsafe message to a session without a violation, or to a new
  session, gets the block message; the record keeps its history and counts the
  violation. Whatever the requests since start-up, no stored session has 2 or more
  violations.\<close>

theorem second_violation_resets:
  "(\<forall>s. strip raw \<noteq> [] \<and> \<not> is_safe (validate_content (env_rnd e) (strip raw))
        \<and> store sid = Some s \<and> message_count s < 50 \<and> security_violations s \<ge> 1
      \<longrightarrow> chat e (Json (Some (JString raw)) (Some sid)) store =
            (SessionReset reset_message ''security'', store(sid \<mapsto> fresh_session (env_now e)))
          \<and> messages (fresh_session (env_now e)) = []
          \<and> security_violations (fresh_session (env_now e)) = 0)
   \<and> (\<forall>s. strip raw \<noteq> [] \<and> \<not> is_safe (validate_content (env_rnd e) (strip raw))
        \<and> store sid = Some s \<and> message_count s < 50 \<and> security_violations s = 0
      \<longrightarrow> chat e (Json (Some (JString raw)) (Some sid)) store =
            (Blocked block_message ''security'' 1,
             store(sid \<mapsto> s\<lparr>message_count := message_count s + 1, security_violations := 1\<rparr>)))
   \<and> (strip raw \<noteq> [] \<and> \<not> is_safe (validate_content (env_rnd e) (strip raw))
        \<and> store sid = None
      \<longrightarrow> chat e (Json (Some (JString raw)) (Some sid)) store =
            (Blocked block_message ''security'' 1,
             store(sid \<mapsto> (fresh_session (env_now e))\<lparr>message_count := 1, security_violations := 1\<rparr>)))
   \<and> (\<forall>reqs k s. run reqs k = Some s \<longrightarrow> security_violations s < 2)"
proof (intro conjI allI impI)
  fix s
  assume a: "strip raw \<noteq> [] \<and> \<not> is_safe (validate_content (env_rnd e) (strip raw))
        \<and> store sid = Some s \<and> message_count s < 50 \<and> security_violations s \<ge> 1"
  then show "chat e (Json (Some (JString raw)) (Some sid)) store =
            (SessionReset reset_message ''security'', store(sid \<mapsto> fresh_session (env_now e)))"
    using chat_unsafe[of raw e s store sid] by simp
next
  fix s
  assume a: "strip raw \<noteq> [] \<and> \<not> is_safe (validate_content (env_rnd e) (strip raw))
        \<and> store sid = Some s \<and> message_count s < 50 \<and> security_violations s = 0"
  then show "chat e (Json (Some (JString raw)) (Some sid)) store =
            (Blocked block_message ''security'' 1,
             store(sid \<mapsto> s\<lparr>message_count := message_count s + 1, security_violations := 1\<rparr>))"
    using chat_unsafe[of raw e s store sid] by simp
next
  assume a: "strip raw \<noteq> [] \<and> \<not> is_safe (validate_content (env_rnd e) (strip raw))
        \<and> store sid = None"
  then show "chat e (Json (Some (JString raw)) (Some sid)) store =
            (Blocked block_message ''security'' 1,
             store(sid \<mapsto> (fresh_session (env_now e))\<lparr>message_count := 1, security_violations := 1\<rparr>))"
    using chat_unsafe[of raw e "fresh_session (env_now e)" store sid]
    by (simp add: fresh_session_def)
next
  fix reqs k s
  assume "run reqs k = Some s"
  then show "security_violations s < 2"
    unfolding run_def using foldl_handle_violations[of Map.empty reqs k s] by simp
qed (simp_all add: fresh_session_def)

subsection \<open>A session at the rate limit\<close>

lemma off_topic_turns:
  assumes "store ''s'' = Some s" "message_count s + int n \<le> 50"
  shows "foldl handle store (replicate n (say ''s'' ''hi'')) =
     store(''s'' \<mapsto> s\<lparr>message_count := message_count s + int n,
                        off_topic_warnings := off_topic_warnings s + int n\<rparr>)"
  using assms
proof (induction n arbitrary: store s)
  case 0
  then show ?case by (auto simp: fun_upd_idem)
next
  case (Suc n)
  let ?s1 = "s\<lparr>message_count := message_count s + 1,
                off_topic_warnings := off_topic_warnings s + 1\<rparr>"
  have step: "handle store (say ''s'' ''hi'') = store(''s'' \<mapsto> ?s1)"
    using Suc.prems
    by (simp add: say_def chat_def chat_body_def Let_def strip_hi validate_hi)
  have "foldl handle (store(''s'' \<mapsto> ?s1)) (replicate n (say ''s'' ''hi'')) =
     (store(''s'' \<mapsto> ?s1))(''s'' \<mapsto> ?s1\<lparr>message_count := message_count ?s1 + int n,
                        off_topic_warnings := off_topic_warnings ?s1 + int n\<rparr>)"
    by (rule Suc.IH) (use Suc.prems in auto)
  then show ?case using step by (simp add: ac_simps)
qed

lemma first_off_topic_turn:
  "handle Map.empty (say ''s'' ''hi'') =
     Map.empty(''s'' \<mapsto> (fresh_session 0)\<lparr>message_count := 1, off_topic_warnings := 1\<rparr>)"
  by (simp add: say_def chat_def chat_body_def Let_def strip_hi validate_hi env_text_reply_def
      fresh_session_def)

lemma run_to_limit:
  "run (replicate 49 (say ''s'' ''hi'') @ [say ''s'' ''gun'']) =
     Map.empty(''s'' \<mapsto> \<lparr>messages = [], created_at = 0, message_count = 50,
                            off_topic_warnings = 49, security_violations = 1\<rparr>)"
proof -
  have r: "replicate 49 (say ''s'' ''hi'') = say ''s'' ''hi'' # replicate 48 (say ''s'' ''hi'')"
    by (simp add: numeral_eq_Suc)
  let ?s1 = "(fresh_session 0)\<lparr>message_count := 1, off_topic_warnings := 1\<rparr>"
  have a: "foldl handle Map.empty (replicate 49 (say ''s'' ''hi'')) =
       Map.empty(''s'' \<mapsto> ?s1\<lparr>message_count := message_count ?s1 + int 48,
                        off_topic_warnings := off_topic_warnings ?s1 + int 48\<rparr>)"
    unfolding r
    using off_topic_turns[of "Map.empty(''s'' \<mapsto> ?s1)" ?s1 48]
    by (simp add: first_off_topic_turn)
  show ?thesis
    unfolding run_def foldl_append a
    by (simp add: say_def chat_def chat_body_def Let_def strip_gun validate_gun
        env_text_reply_def fresh_session_def)
qed

text \<open>C3 as stated fails where the rate limit comes first. After 49 off-topic
  messages and one unsafe message a session has \<open>message_count\<close> 50 and one
  violation; a second unsafe message is then answered with the rate-limit response,
  and the violation stays counted.\<close>

theorem second_violation_resets_counterexample:
  "run (replicate 49 (say ''s'' ''hi'') @ [say ''s'' ''gun'']) ''s'' =
     Some \<lparr>messages = [], created_at = 0, message_count = 50,
           off_topic_warnings = 49, security_violations = 1\<rparr>
   \<and> \<not> is_safe (validate_content 0 (strip ''gun''))
   \<and> chat env_text_reply (Json (Some (JString ''gun'')) (Some ''s''))
       (run (replicate 49 (say ''s'' ''hi'') @ [say ''s'' ''gun''])) =
     (RateLimited,
      Map.empty(''s'' \<mapsto> \<lparr>messages = [], created_at = 0, message_count = 51,
                             off_topic_warnings = 49, security_violations = 1\<rparr>))"
  unfolding run_to_limit
  by (simp add: chat_def chat_body_def Let_def strip_gun validate_gun)

text \<open>C3 at two unsafe messages in a row, on a new and on a fresh session.\<close>

theorem second_violation_resets_witness:
  "chat env_text_reply (Json (Some (JString ''gun'')) (Some ''s'')) Map.empty =
     (Blocked block_message ''security'' 1,
      Map.empty(''s'' \<mapsto> (fresh_session 0)\<lparr>message_count := 1, security_violations := 1\<rparr>))
   \<and> chat env_text_reply (Json (Some (JString ''gun'')) (Some ''s''))
       (Map.empty(''s'' \<mapsto> (fresh_session 0)\<lparr>message_count := 1, security_violations := 1\<rparr>)) =
     (SessionReset reset_message ''security'', Map.empty(''s'' \<mapsto> fresh_session 0))
   \<and> chat env_text_reply (Json (Some (JString ''gun'')) (Some ''s''))
       (Map.empty(''s'' \<mapsto> fresh_session 0)) =
     (Blocked block_message ''security'' 1,
      Map.empty(''s'' \<mapsto> (fresh_session 0)\<lparr>message_count := 1, security_violations := 1\<rparr>))
   \<and> map_option security_violations (run [say ''s'' ''gun'', say ''s'' ''gun''] ''s'') = Some 0"
proof -
  have u: "strip ''gun'' \<noteq> [] \<and> \<not> is_safe (validate_content (env_rnd env_text_reply) (strip ''gun''))"
    by (simp add: strip_gun validate_gun)
  have n: "env_now env_text_reply = 0" by (simp add: env_text_reply_def)
  let ?s1 = "(fresh_session 0)\<lparr>message_count := 1, security_violations := 1\<rparr>"
  have c1: "chat env_text_reply (Json (Some (JString ''gun'')) (Some ''s'')) Map.empty =
     (Blocked block_message ''security'' 1, Map.empty(''s'' \<mapsto> ?s1))"
    using second_violation_resets[of "''gun''" env_text_reply Map.empty "''s''"] u n by simp
  have c2: "chat env_text_reply (Json (Some (JString ''gun'')) (Some ''s'')) (Map.empty(''s'' \<mapsto> ?s1)) =
     (SessionReset reset_message ''security'', Map.empty(''s'' \<mapsto> fresh_session 0))"
    using second_violation_resets[of "''gun''" env_text_reply "Map.empty(''s'' \<mapsto> ?s1)" "''s''"] u n
    by (simp add: fresh_session_def)
  have c3: "chat env_text_reply (Json (Some (JString ''gun'')) (Some ''s''))
       (Map.empty(''s'' \<mapsto> fresh_session 0)) =
     (Blocked block_message ''security'' 1, Map.empty(''s'' \<mapsto> ?s1))"
    using second_violation_resets[of "''gun''" env_text_reply "Map.empty(''s'' \<mapsto> fresh_session 0)" "''s''"] u n
    by (simp add: fresh_session_def)
  have c4: "map_option security_violations (run [say ''s'' ''gun'', say ''s'' ''gun''] ''s'') = Some 0"
  proof -
    have f: "security_violations (fresh_session 0) = 0" by (simp add: fresh_session_def)
    show ?thesis by (simp add: run_def say_def c1 c2 f)
  qed
  show ?thesis using c1 c2 c3 c4 by blast
qed

subsection \<open>Exceptions\<close>

lemma converse_not_service_error:
  "fst (converse e um sid session store) \<noteq> Returned ServiceError"
  by (auto simp: converse_def extend_messages_def Let_def
      split: option.splits llm_reply.splits arguments.splits if_splits)

lemma chat_body_not_service_error:
  "fst (chat_body e body store) \<noteq> Returned ServiceError"
  using converse_not_service_error
  by (auto simp: chat_body_def Let_def
      split: request_body.splits option.splits jvalue.splits if_splits)

lemma chat_body_string:
  "chat_body e (Json (Some (JString raw)) sid) store =
     (let session_id = (case sid of None \<Rightarrow> ''default'' | Some s \<Rightarrow> s);
          s = (case store session_id of None \<Rightarrow> fresh_session (env_now e) | Some s' \<Rightarrow> s');
          session1 = s\<lparr>message_count := message_count s + 1\<rparr>;
          store2 = store(session_id \<mapsto> session1);
          v = validate_content (env_rnd e) (strip raw)
      in
      if strip raw = [] then (Returned NoMessage, store)
      else if message_count session1 > 50 then (Returned RateLimited, store2)
      else if \<not> is_safe v then
        (if security_violations session1 + 1 \<ge> 2 then
           (Returned (SessionReset reset_message ''security''),
            store(session_id \<mapsto> fresh_session (env_now e)))
         else (Returned (Blocked block_message ''security'' (security_violations session1 + 1)),
               store(session_id \<mapsto> session1\<lparr>security_violations := security_violations session1 + 1\<rparr>)))
      else if \<not> is_travel v then
        (Returned (OffTopic (off_topic_message (off_topic_warnings session1 + 1) (suggestion v))
                     (v_category v) (off_topic_warnings session1 + 1)),
         store(session_id \<mapsto> session1\<lparr>off_topic_warnings := off_topic_warnings session1 + 1\<rparr>))
      else converse e (strip raw) session_id session1 store2)"
  by (cases "store (case sid of None \<Rightarrow> ''default'' | Some s \<Rightarrow> s)")
     (simp_all add: chat_body_def Let_def)

lemma snd_chat: "snd (chat e body store) = snd (chat_body e body store)"
  by (auto simp: chat_def split: prod.splits outcome.splits)

text \<open>C8 (amended). When a turn ends in the generic error of the exception handler:
  if the exception came before the session was loaded (the body is not JSON or the
  message is not a string) the store is as before; otherwise the store differs from
  the one before exactly in the session of the turn, which has been created if it was
  absent and whose \<open>message_count\<close> is one higher, with history,
  \<open>off_topic_warnings\<close> and \<open>security_violations\<close> as before.\<close>

theorem chat_exception_keeps_increment:
  assumes "fst (chat e body store) = ServiceError"
  shows "case body of
           Json (Some (JString raw)) sid \<Rightarrow>
             (let session_id = (case sid of None \<Rightarrow> ''default'' | Some s \<Rightarrow> s);
                  s = (case store session_id of None \<Rightarrow> fresh_session (env_now e) | Some s' \<Rightarrow> s')
              in snd (chat e body store) =
                   store(session_id \<mapsto> s\<lparr>message_count := message_count s + 1\<rparr>))
         | _ \<Rightarrow> snd (chat e body store) = store"
proof -
  have r: "fst (chat_body e body store) = Raised"
    using assms chat_body_not_service_error[of e body store]
    by (auto simp: chat_def split: prod.splits outcome.splits)
  note e = snd_chat
  show ?thesis
  proof (cases body)
    case NoJson
    then show ?thesis by (simp add: e chat_body_def)
  next
    case (Json msg sid)
    show ?thesis
    proof (cases msg)
      case None
      with r Json show ?thesis by (simp add: chat_body_def Let_def strip_def)
    next
      case (Some v)
      show ?thesis
      proof (cases v)
        case (JString raw)
        from r have "fst (chat_body e (Json (Some (JString raw)) sid) store) = Raised"
          by (simp add: Json Some JString)
        then have "snd (chat_body e (Json (Some (JString raw)) sid) store) =
            store((case sid of None \<Rightarrow> ''default'' | Some s \<Rightarrow> s) \<mapsto>
              (case store (case sid of None \<Rightarrow> ''default'' | Some s \<Rightarrow> s) of
                 None \<Rightarrow> fresh_session (env_now e) | Some s' \<Rightarrow> s')
              \<lparr>message_count :=
                 message_count (case store (case sid of None \<Rightarrow> ''default'' | Some s \<Rightarrow> s) of
                 None \<Rightarrow> fresh_session (env_now e) | Some s' \<Rightarrow> s') + 1\<rparr>)"
          unfolding chat_body_string
          by (auto simp: Let_def split: if_splits dest: converse_raised)
        then show ?thesis
          by (simp add: e Let_def Json Some JString)
      qed (use Json Some in \<open>simp_all add: e chat_body_def\<close>)
    qed
  qed
qed

text \<open>C8 as stated fails for \<open>message_count\<close>: when the model asks for
  \<open>search_hotels\<close> without arguments, the call raises, the generic error is
  returned, and the session's \<open>message_count\<close> has gone from 0 to 1.\<close>

theorem chat_exception_counterexample:
  "fst (chat env_unbound_call (Json (Some (JString ''trip'')) (Some ''s''))
          (Map.empty(''s'' \<mapsto> fresh_session 0))) = ServiceError
   \<and> map_option message_count
       (snd (chat env_unbound_call (Json (Some (JString ''trip'')) (Some ''s''))
          (Map.empty(''s'' \<mapsto> fresh_session 0))) ''s'') = Some 1
   \<and> map_option message_count ((Map.empty(''s'' \<mapsto> fresh_session 0)) ''s'') = Some 0"
  by (simp add: chat_def chat_body_def converse_def Let_def strip_trip validate_trip
      env_unbound_call_def fresh_session_def function_mapping_def binds_def last10_def)

text \<open>C8 at that turn and at a body that is not JSON.\<close>

theorem chat_exception_keeps_increment_witness:
  "snd (chat env_unbound_call (Json (Some (JString ''trip'')) (Some ''s''))
          (Map.empty(''s'' \<mapsto> fresh_session 0)))
     = Map.empty(''s'' \<mapsto> (fresh_session 0)\<lparr>message_count := 1\<rparr>)
   \<and> snd (chat env_unbound_call NoJson (Map.empty(''s'' \<mapsto> fresh_session 0)))
     = Map.empty(''s'' \<mapsto> fresh_session 0)"
proof -
  let ?st = "Map.empty(''s'' \<mapsto> fresh_session 0)"
  have a: "fst (chat env_unbound_call (Json (Some (JString ''trip'')) (Some ''s'')) ?st) = ServiceError"
    by (simp add: chat_def chat_body_def converse_def Let_def strip_trip validate_trip
      env_unbound_call_def fresh_session_def function_mapping_def binds_def last10_def)
  have b: "fst (chat env_unbound_call NoJson ?st) = ServiceError"
    by (simp add: chat_def chat_body_def)
  from chat_exception_keeps_increment[OF a] chat_exception_keeps_increment[OF b]
  show ?thesis by (simp add: Let_def fresh_session_def)
qed

subsection \<open>Reset\<close>

text \<open>C9 (amended). \<open>reset_chat\<close> acknowledges and removes the key's record from
  the store, leaving every other key as it was; \<open>session_status\<close> then reports the
  session as not active. A second \<open>reset_chat\<close> right after acknowledges again and
  leaves the store as it is.\<close>

theorem reset_chat_removes_session:
  "reset_chat sid store =
     (ResetAck, store((case sid of None \<Rightarrow> ''default'' | Some s \<Rightarrow> s) := None))
   \<and> session_status sid (snd (reset_chat sid store)) = SessionInactive
   \<and> (\<forall>k. k \<noteq> (case sid of None \<Rightarrow> ''default'' | Some s \<Rightarrow> s)
        \<longrightarrow> snd (reset_chat sid store) k = store k)
   \<and> reset_chat sid (snd (reset_chat sid store)) = (ResetAck, snd (reset_chat sid store))"
  by (auto simp: reset_chat_def session_status_def Let_def)

text \<open>C9 as stated fails: after the reset the key has no record, neither a fresh
  zeroed one nor any other.\<close>

theorem reset_chat_counterexample:
  "snd (reset_chat (Some ''s'') (Map.empty(''s'' \<mapsto> fresh_session 0))) ''s'' = None
   \<and> snd (reset_chat (Some ''s'') (Map.empty(''s'' \<mapsto> fresh_session 0))) ''s''
       \<noteq> Some (fresh_session 0)
   \<and> session_status (Some ''s'') (snd (reset_chat (Some ''s'') (Map.empty(''s'' \<mapsto> fresh_session 0))))
       = SessionInactive"
  by (simp add: reset_chat_def session_status_def Let_def)

text \<open>C9 on a store with two sessions.\<close>

theorem reset_chat_removes_session_witness:
  "snd (reset_chat (Some ''s'')
         (Map.empty(''s'' \<mapsto> fresh_session 0, ''t'' \<mapsto> fresh_session 1))) ''t''
     = Some (fresh_session 1)
   \<and> snd (reset_chat (Some ''s'')
         (Map.empty(''s'' \<mapsto> fresh_session 0, ''t'' \<mapsto> fresh_session 1))) ''s'' = None"
proof -
  have n: "''t'' \<noteq> (case Some ''s'' of None \<Rightarrow> ''default'' | Some s \<Rightarrow> s)" by simp
  from reset_chat_removes_session[of "Some ''s''"
      "Map.empty(''s'' \<mapsto> fresh_session 0, ''t'' \<mapsto> fresh_session 1)"] n
  show ?thesis by simp
qed

end
